theory Spec2Isabelle
  imports Main "HOL-Library.Word" "HOL-Library.Sublist" "HOL-Library.AList"
begin

section \<open>Strings of the source language\<close>

text \<open>
  A JavaScript string is a sequence of UTF-16 code units; \<open>length\<close> counts code units.
  \<open>js\<close> turns an ASCII literal of the source into such a sequence.
\<close>

type_synonym jsstring = "16 word list"

definition js :: "string \<Rightarrow> jsstring" where
  "js s = map (\<lambda>c. of_nat (of_char c)) s"

text \<open>The double quote, which the messages of the source put around the values they name.\<close>

definition dquote :: jsstring where
  "dquote = [0x22]"

text \<open>
  A template literal prints a number with \<open>Number.prototype.toString\<close>. The numbers printed
  by this program are lengths and counts: non-negative integers, far below \<open>10^21\<close>, which
  print as their decimal digits.
\<close>

fun decimal :: "nat \<Rightarrow> jsstring" where
  "decimal n =
     (if n < 10 then [of_nat (48 + n)]
      else decimal (n div 10) @ [of_nat (48 + n mod 10)])"

declare decimal.simps [simp del]

text \<open>
  \<open>Buffer.byteLength(s, 'utf8')\<close>: the number of bytes of the UTF-8 encoding of \<open>s\<close>. A code
  unit below \<open>0x80\<close> takes one byte, one below \<open>0x800\<close> two, a lead surrogate followed by a
  trail surrogate four for the pair, and every other code unit three (a surrogate that is
  not part of a pair is encoded as U+FFFD).
\<close>

definition is_lead :: "16 word \<Rightarrow> bool" where
  "is_lead c = (0xD800 \<le> c \<and> c \<le> 0xDBFF)"

definition is_trail :: "16 word \<Rightarrow> bool" where
  "is_trail c = (0xDC00 \<le> c \<and> c \<le> 0xDFFF)"

definition unit_bytes :: "16 word \<Rightarrow> nat" where
  "unit_bytes c = (if c < 0x80 then 1 else if c < 0x800 then 2 else 3)"

fun byteLength :: "jsstring \<Rightarrow> nat" where
  "byteLength [] = 0"
| "byteLength [c] = unit_bytes c"
| "byteLength (c # d # cs) =
     (if is_lead c \<and> is_trail d then 4 + byteLength cs
      else unit_bytes c + byteLength (d # cs))"

text \<open>
  The encoding whose bytes \<open>byteLength\<close> counts: a surrogate pair is one code point above
  \<open>0xFFFF\<close>, a lone surrogate is replaced by U+FFFD.
\<close>

definition codePoint :: "16 word \<Rightarrow> 16 word \<Rightarrow> nat" where
  "codePoint hi lo = 0x10000 + (unat hi - 0xD800) * 0x400 + (unat lo - 0xDC00)"

definition scalar :: "16 word \<Rightarrow> nat" where
  "scalar c = (if is_lead c \<or> is_trail c then 0xFFFD else unat c)"

definition encode :: "nat \<Rightarrow> 8 word list" where
  "encode cp =
     (if cp < 0x80 then [of_nat cp]
      else if cp < 0x800 then [of_nat (0xC0 + cp div 0x40), of_nat (0x80 + cp mod 0x40)]
      else if cp < 0x10000
      then [of_nat (0xE0 + cp div 0x1000), of_nat (0x80 + cp div 0x40 mod 0x40),
            of_nat (0x80 + cp mod 0x40)]
      else [of_nat (0xF0 + cp div 0x40000), of_nat (0x80 + cp div 0x1000 mod 0x40),
            of_nat (0x80 + cp div 0x40 mod 0x40), of_nat (0x80 + cp mod 0x40)])"

fun utf8 :: "jsstring \<Rightarrow> 8 word list" where
  "utf8 [] = []"
| "utf8 [c] = encode (scalar c)"
| "utf8 (c # d # cs) =
     (if is_lead c \<and> is_trail d then encode (codePoint c d) @ utf8 cs
      else encode (scalar c) @ utf8 (d # cs))"

text \<open>
  The truthiness of an optional string, as in \<open>if (config.subject)\<close>: \<open>undefined\<close> and the
  empty string are falsy, every other string is truthy.
\<close>

definition truthy :: "jsstring option \<Rightarrow> bool" where
  "truthy x = (case x of None \<Rightarrow> False | Some s \<Rightarrow> s \<noteq> [])"

section \<open>The regular expression of \<open>validateTopicArn\<close>\<close>

text \<open>
  The pattern \<^verbatim>\<open>/^arn:aws:sns:[a-z0-9-]+:\d+:.+$/\<close> is a sequence of literals and of
  character classes under \<open>+\<close>, between \<open>^\<close> and \<open>$\<close>. It has no flag, so \<open>$\<close> is the end of
  the input and \<open>.\<close> is any code unit but a line terminator (LF, CR, U+2028, U+2029).
\<close>

datatype atom = Lit jsstring | OneOrMore "16 word \<Rightarrow> bool"

definition region_class :: "16 word \<Rightarrow> bool" where
  "region_class c = ((0x61 \<le> c \<and> c \<le> 0x7A) \<or> (0x30 \<le> c \<and> c \<le> 0x39) \<or> c = 0x2D)"

definition digit_class :: "16 word \<Rightarrow> bool" where
  "digit_class c = (0x30 \<le> c \<and> c \<le> 0x39)"

definition line_terminator :: "16 word \<Rightarrow> bool" where
  "line_terminator c = (c = 0x0A \<or> c = 0x0D \<or> c = 0x2028 \<or> c = 0x2029)"

definition dot_class :: "16 word \<Rightarrow> bool" where
  "dot_class c = (\<not> line_terminator c)"

definition arnPattern :: "atom list" where
  "arnPattern =
     [Lit (js ''arn:aws:sns:''), OneOrMore region_class, Lit (js '':''),
      OneOrMore digit_class, Lit (js '':''), OneOrMore dot_class]"

text \<open>
  \<open>test\<close> for a pattern anchored at both ends: the whole input is consumed. A class under
  \<open>+\<close> takes one code unit of the class and then either goes on with the rest of the
  pattern or takes another one; the engine tries the longest run first and backtracks,
  which gives the same answer.
\<close>

function test :: "atom list \<Rightarrow> jsstring \<Rightarrow> bool" where
  "test [] s = (s = [])"
| "test (Lit l # r) s = (prefix l s \<and> test r (drop (length l) s))"
| "test (OneOrMore p # r) s =
     (case s of [] \<Rightarrow> False
      | c # cs \<Rightarrow> p c \<and> (test r cs \<or> test (OneOrMore p # r) cs))"
  by pat_completeness auto
termination
  by (relation "measure (\<lambda>(r, s). length r + length s)") auto

section \<open>The validators\<close>

text \<open>
  A validator returns nothing or throws an \<open>Error\<close>; the model returns \<open>Inr\<close> or \<open>Inl\<close> of
  the error's message.
\<close>

definition validateTopicArn :: "jsstring \<Rightarrow> jsstring + unit" where
  "validateTopicArn topicArn =
     (if \<not> test arnPattern topicArn
      then Inl (js ''Invalid topic ARN format: '' @ dquote @ topicArn @ dquote @ js ''. '' @
                js ''Expected format: arn:aws:sns:{region}:{account-id}:{topic-name}'')
      else Inr ())"

definition validateMessage :: "jsstring \<Rightarrow> jsstring + unit" where
  "validateMessage message =
     (let sizeInBytes = byteLength message;
          maxSizeBytes = 256 * 1024
      in if sizeInBytes > maxSizeBytes
         then Inl (js ''Message size ('' @ decimal sizeInBytes @
                   js '' bytes) exceeds maximum allowed size ('' @ decimal maxSizeBytes @
                   js '' bytes / 256 KB)'')
         else Inr ())"

definition validateMessageStructure :: "jsstring option \<Rightarrow> jsstring + unit" where
  "validateMessageStructure messageStructure =
     (case messageStructure of
        None \<Rightarrow> Inr ()
      | Some s \<Rightarrow>
          if s \<noteq> js ''json''
          then Inl (js ''Invalid message-structure: '' @ dquote @ s @ dquote @
                    js ''. Must be '' @ dquote @ js ''json'' @ dquote @ js '' or left empty.'')
          else Inr ())"

text \<open>
  \<open>validateFifoTopic\<close> may call \<open>core.warning\<close>; the model returns the warnings it emitted.
\<close>

definition fifoRequired :: jsstring where
  "fifoRequired = js ''message-group-id is required for FIFO topics (topic ARN ends with .fifo)''"

definition fifoWarning :: jsstring where
  "fifoWarning =
     js ''message-group-id is provided but topic ARN does not end with .fifo. '' @
     js ''This parameter will be ignored for standard topics.''"

definition validateFifoTopic :: "jsstring \<Rightarrow> jsstring option \<Rightarrow> jsstring + jsstring list" where
  "validateFifoTopic topicArn messageGroupId =
     (let isFifo = suffix (js ''.fifo'') topicArn
      in if isFifo \<and> \<not> truthy messageGroupId then Inl fifoRequired
         else if \<not> isFifo \<and> truthy messageGroupId then Inr [fifoWarning]
         else Inr [])"

section \<open>Requests, responses and results\<close>

record MessageConfig =
  topicArn :: jsstring
  message :: jsstring
  subject :: "jsstring option"
  messageAttributes :: "jsstring option"
  messageGroupId :: "jsstring option"
  messageDeduplicationId :: "jsstring option"
  messageStructure :: "jsstring option"

text \<open>
  The value that \<open>publishMessage\<close> puts into the \<open>error\<close> member is a string whenever the
  program made it. It can also be the \<open>message\<close> property of an \<open>Error\<close> that the client
  rejected with, which is any value: a value that is not a string is kept as what a template
  literal does with it, the string it prints (\<open>Inr\<close>) or the message of the \<open>TypeError\<close> it
  throws (\<open>Inl\<close>, as for a \<open>Symbol\<close>).
\<close>

datatype errmsg = StringMessage jsstring | OtherMessage "jsstring + jsstring"

record MessageResult =
  success :: bool
  messageId :: "jsstring option"
  sequenceNumber :: "jsstring option"
  error :: "errmsg option"

text \<open>The SDK's \<open>MessageAttributeValue\<close>; the binary payload is a \<open>Uint8Array\<close>.\<close>

record MessageAttributeValue =
  DataType :: jsstring
  StringValue :: "jsstring option"
  BinaryValue :: "8 word list option"

text \<open>
  A \<open>Record<string, MessageAttributeValue>\<close> is kept as the list of its own properties, one
  pair for each name.
\<close>

type_synonym attributes = "(jsstring \<times> MessageAttributeValue) list"

text \<open>
  The SDK's \<open>PublishCommandInput\<close>, with all its members, and the two members of
  \<open>PublishCommandOutput\<close> that the program reads.
\<close>

record PublishCommandInput =
  TopicArn :: jsstring
  TargetArn :: "jsstring option"
  PhoneNumber :: "jsstring option"
  Message :: jsstring
  Subject :: "jsstring option"
  MessageStructure :: "jsstring option"
  MessageAttributes :: "attributes option"
  MessageDeduplicationId :: "jsstring option"
  MessageGroupId :: "jsstring option"

record PublishCommandOutput =
  MessageId :: "jsstring option"
  SequenceNumber :: "jsstring option"

text \<open>
  What \<open>client.send\<close> can reject with, as line 233 sees it: an instance of \<open>Error\<close>, with
  the value of its \<open>message\<close> property; another value that \<open>String\<close> converts, with the
  string; or a value on which the line itself throws, with the message of what it throws
  (\<open>String\<close> throws a \<open>TypeError\<close> on an object without \<open>toString\<close> and \<open>valueOf\<close>, such as
  \<open>Object.create(null)\<close>).
\<close>

datatype rejection = ErrorInstance errmsg | OtherValue jsstring | Inscrutable jsstring

type_synonym client = "PublishCommandInput \<Rightarrow> rejection + PublishCommandOutput"

text \<open>What the program does to the outside: the lines it logs and the requests it sends.\<close>

datatype event =
  Info jsstring | Warning jsstring | ErrorLine jsstring | Send PublishCommandInput

section \<open>Values read from JSON\<close>

text \<open>
  The values \<open>JSON.parse\<close> can return. A number is kept as the string \<open>String\<close> gives for
  it, which is all the program observes of it besides its truthiness; \<open>0\<close> and \<open>-0\<close> both
  print as \<open>0\<close>. An object is the list of its own properties, with distinct names.
\<close>

datatype json =
  JNull | JBool bool | JNum jsstring | JStr jsstring
  | JArr "json list" | JObj "(jsstring \<times> json) list"

text \<open>
  Two functions of the platform are parameters of the model: \<open>JSON.parse\<close>, and
  \<open>Buffer.from(value, 'base64')\<close> followed by the copy into a \<open>Uint8Array\<close>. Each returns
  its result or the message of the error it throws.
\<close>

record runtime =
  JSON_parse :: "jsstring \<Rightarrow> jsstring + json"
  Buffer_from_base64 :: "json \<Rightarrow> jsstring + 8 word list"

text \<open>
  \<open>Object.keys\<close> and \<open>Object.entries\<close>: the own enumerable properties. They throw on
  \<open>null\<close>; a number or a boolean has none, a string and an array have their indices.
\<close>

definition nullToObject :: jsstring where
  "nullToObject = js ''Cannot convert undefined or null to object''"

fun Object_entries :: "json \<Rightarrow> jsstring + (jsstring \<times> json) list" where
  "Object_entries JNull = Inl nullToObject"
| "Object_entries (JBool b) = Inr []"
| "Object_entries (JNum n) = Inr []"
| "Object_entries (JStr s) = Inr (zip (map decimal [0..<length s]) (map (\<lambda>c. JStr [c]) s))"
| "Object_entries (JArr xs) = Inr (zip (map decimal [0..<length xs]) xs)"
| "Object_entries (JObj kvs) = Inr kvs"

definition Object_keys :: "json \<Rightarrow> jsstring + jsstring list" where
  "Object_keys v = (case Object_entries v of Inl e \<Rightarrow> Inl e | Inr kvs \<Rightarrow> Inr (map fst kvs))"

text \<open>
  Reading the property \<open>name\<close> of a value other than \<open>null\<close>, for a name that no prototype
  defines (\<open>DataType\<close>, \<open>StringValue\<close>, \<open>BinaryValue\<close>): an own property of an object, and
  \<open>undefined\<close> (\<open>None\<close>) everywhere else. Reading a property of \<open>null\<close> throws.
\<close>

fun property :: "json \<Rightarrow> jsstring \<Rightarrow> json option" where
  "property (JObj kvs) name = map_of kvs name"
| "property v name = None"

definition nullRead :: "jsstring \<Rightarrow> jsstring" where
  "nullRead name = js ''Cannot read properties of null (reading '' @ [0x27] @ name @ [0x27] @ js '')''"

text \<open>The values for which \<open>!v\<close> holds.\<close>

fun falsy :: "json option \<Rightarrow> bool" where
  "falsy None = True"
| "falsy (Some JNull) = True"
| "falsy (Some (JBool b)) = (\<not> b)"
| "falsy (Some (JNum n)) = (n = js ''0'')"
| "falsy (Some (JStr s)) = (s = [])"
| "falsy (Some (JArr xs)) = False"
| "falsy (Some (JObj kvs)) = False"

text \<open>
  \<open>String(v)\<close>, also applied by a template literal. An array prints its elements joined
  by commas, \<open>null\<close> as nothing. An object prints as \<open>[object Object]\<close> through the
  \<open>toString\<close> it inherits; when it has an own property \<open>toString\<close>, which is never a
  function, the conversion throws.
\<close>

definition notPrimitive :: jsstring where
  "notPrimitive = js ''Cannot convert object to primitive value''"

fun ToString :: "json \<Rightarrow> jsstring + jsstring"
  and joinElements :: "json list \<Rightarrow> jsstring + jsstring" where
  "ToString JNull = Inr (js ''null'')"
| "ToString (JBool b) = Inr (if b then js ''true'' else js ''false'')"
| "ToString (JNum n) = Inr n"
| "ToString (JStr s) = Inr s"
| "ToString (JArr xs) = joinElements xs"
| "ToString (JObj kvs) =
     (if js ''toString'' \<in> fst ` set kvs then Inl notPrimitive else Inr (js ''[object Object]''))"
| "joinElements [] = Inr []"
| "joinElements (x # xs) =
     (case (if x = JNull then Inr [] else ToString x) of
        Inl e \<Rightarrow> Inl e
      | Inr s \<Rightarrow>
          if xs = [] then Inr s
          else (case joinElements xs of Inl e \<Rightarrow> Inl e | Inr t \<Rightarrow> Inr (s @ js '','' @ t)))"

section \<open>\<open>parseMessageAttributes\<close>\<close>

definition validDataTypes :: "jsstring list" where
  "validDataTypes = [js ''String'', js ''Number'', js ''Binary'', js ''String.Array'']"

fun join :: "jsstring \<Rightarrow> jsstring list \<Rightarrow> jsstring" where
  "join sep [] = []"
| "join sep [x] = x"
| "join sep (x # y # ys) = x @ sep @ join sep (y # ys)"

text \<open>\<open>validDataTypes.includes(v)\<close>: \<open>v\<close> is a string and one of the list.\<close>

fun includes_str :: "jsstring list \<Rightarrow> json option \<Rightarrow> bool" where
  "includes_str xs (Some (JStr s)) = (s \<in> set xs)"
| "includes_str xs v = False"

text \<open>The string that a property holds, once \<open>includes_str\<close> has shown that it is one.\<close>

fun string_of :: "json option \<Rightarrow> jsstring" where
  "string_of (Some (JStr s)) = s"
| "string_of v = []"

text \<open>Lines 83 to 94: the attribute built from the three properties read.\<close>

definition buildAttribute ::
  "runtime \<Rightarrow> json option \<Rightarrow> json option \<Rightarrow> json option \<Rightarrow> jsstring + MessageAttributeValue" where
  "buildAttribute rt dataType stringValue binaryValue =
     (case (case stringValue of None \<Rightarrow> Inr None
            | Some v \<Rightarrow> (case ToString v of Inl e \<Rightarrow> Inl e | Inr s \<Rightarrow> Inr (Some s))) of
        Inl e \<Rightarrow> Inl e
      | Inr sv \<Rightarrow>
          (case (case binaryValue of None \<Rightarrow> Inr None
                 | Some v \<Rightarrow> (case Buffer_from_base64 rt v of Inl e \<Rightarrow> Inl e
                                | Inr b \<Rightarrow> Inr (Some b))) of
             Inl e \<Rightarrow> Inl e
           | Inr bv \<Rightarrow>
               Inr \<lparr>DataType = string_of dataType, StringValue = sv, BinaryValue = bv\<rparr>))"

text \<open>Lines 48 to 94: the body of the loop, for one entry of the parsed value.\<close>

definition parseAttribute :: "runtime \<Rightarrow> jsstring \<Rightarrow> json \<Rightarrow> jsstring + MessageAttributeValue" where
  "parseAttribute rt key attr =
     (if attr = JNull then Inl (nullRead (js ''DataType''))
      else
        let dataType = property attr (js ''DataType'');
            stringValue = property attr (js ''StringValue'');
            binaryValue = property attr (js ''BinaryValue'')
        in if falsy dataType
           then Inl (js ''Missing DataType for attribute '' @ dquote @ key @ dquote @
                     js ''. Must be one of: '' @ join (js '', '') validDataTypes)
           else if \<not> includes_str validDataTypes dataType
           then (case ToString (the dataType) of
                   Inl e \<Rightarrow> Inl e
                 | Inr d \<Rightarrow>
                     Inl (js ''Invalid DataType '' @ dquote @ d @ dquote @
                          js '' for attribute '' @ dquote @ key @ dquote @
                          js ''. Must be one of: '' @ join (js '', '') validDataTypes))
           else if dataType = Some (JStr (js ''String'')) \<or> dataType = Some (JStr (js ''Number''))
                   \<or> dataType = Some (JStr (js ''String.Array''))
           then (if stringValue = None
                 then Inl (js ''Missing StringValue for attribute '' @ dquote @ key @ dquote @
                           js '' with DataType '' @ dquote @ string_of dataType @ dquote)
                 else buildAttribute rt dataType stringValue binaryValue)
           else if dataType = Some (JStr (js ''Binary''))
           then (if binaryValue = None
                 then Inl (js ''Missing BinaryValue for attribute '' @ dquote @ key @ dquote @
                           js '' with DataType '' @ dquote @ js ''Binary'' @ dquote)
                 else buildAttribute rt dataType stringValue binaryValue)
           else buildAttribute rt dataType stringValue binaryValue)"

text \<open>
  \<open>attributes[key] = messageAttr\<close> on an object created by \<open>{}\<close>: the name \<open>__proto__\<close> is the
  accessor of \<open>Object.prototype\<close>, so the assignment sets the prototype and adds no own
  property; every other name is set as an own property.
\<close>

definition assign :: "attributes \<Rightarrow> jsstring \<Rightarrow> MessageAttributeValue \<Rightarrow> attributes" where
  "assign attrs key messageAttr =
     (if key = js ''__proto__'' then attrs else AList.update key messageAttr attrs)"

text \<open>The loop over \<open>Object.entries(parsed)\<close>.\<close>

fun parseEntries :: "runtime \<Rightarrow> (jsstring \<times> json) list \<Rightarrow> attributes \<Rightarrow> jsstring + attributes" where
  "parseEntries rt [] attrs = Inr attrs"
| "parseEntries rt ((key, v) # rest) attrs =
     (case parseAttribute rt key v of
        Inl e \<Rightarrow> Inl e
      | Inr messageAttr \<Rightarrow> parseEntries rt rest (assign attrs key messageAttr))"

text \<open>The \<open>try\<close> block of \<open>parseMessageAttributes\<close>, and the function with its \<open>catch\<close>.\<close>

definition parseMessageAttributes_try :: "runtime \<Rightarrow> jsstring \<Rightarrow> jsstring + attributes" where
  "parseMessageAttributes_try rt attributesJson =
     (case JSON_parse rt attributesJson of
        Inl e \<Rightarrow> Inl e
      | Inr parsed \<Rightarrow>
          (case Object_keys parsed of
             Inl e \<Rightarrow> Inl e
           | Inr attributeKeys \<Rightarrow>
               if length attributeKeys > 10
               then Inl (js ''Too many message attributes: '' @ decimal (length attributeKeys) @
                         js ''. Maximum allowed is 10.'')
               else (case Object_entries parsed of
                       Inl e \<Rightarrow> Inl e
                     | Inr entries \<Rightarrow> parseEntries rt entries [])))"

definition parseMessageAttributes :: "runtime \<Rightarrow> jsstring \<Rightarrow> jsstring + attributes" where
  "parseMessageAttributes rt attributesJson =
     (case parseMessageAttributes_try rt attributesJson of
        Inl errorMessage \<Rightarrow> Inl (js ''Failed to parse message attributes: '' @ errorMessage)
      | Inr attrs \<Rightarrow> Inr attrs)"

section \<open>\<open>publishMessage\<close>\<close>

text \<open>An optional string inside a template literal; \<open>undefined\<close> prints as its name.\<close>

definition template :: "jsstring option \<Rightarrow> jsstring" where
  "template x = (case x of None \<Rightarrow> js ''undefined'' | Some s \<Rightarrow> s)"

text \<open>
  Lines 183 to 213: the command input, built from the configuration. The result is the log
  lines written on the way and the input, or the message of the error that
  \<open>parseMessageAttributes\<close> threw.
\<close>

definition buildInput ::
  "runtime \<Rightarrow> MessageConfig \<Rightarrow> event list \<times> (jsstring + PublishCommandInput)" where
  "buildInput rt config =
     (let input0 = \<lparr>TopicArn = topicArn config, TargetArn = None, PhoneNumber = None,
                     Message = message config, Subject = None, MessageStructure = None,
                     MessageAttributes = None, MessageDeduplicationId = None,
                     MessageGroupId = None\<rparr>;
          input1 = (if truthy (subject config) then input0\<lparr>Subject := subject config\<rparr>
                    else input0);
          log1 = (if truthy (subject config)
                  then [Info (js ''Subject: '' @ template (subject config))] else [])
      in case (if truthy (messageAttributes config)
               then (case parseMessageAttributes rt (template (messageAttributes config)) of
                       Inl e \<Rightarrow> Inl e
                     | Inr attrs \<Rightarrow> Inr (Some attrs))
               else Inr None) of
           Inl e \<Rightarrow> (log1, Inl e)
         | Inr parsed \<Rightarrow>
             (let input2 = (case parsed of None \<Rightarrow> input1
                            | Some attrs \<Rightarrow> input1\<lparr>MessageAttributes := Some attrs\<rparr>);
                  log2 = (case parsed of None \<Rightarrow> []
                          | Some attrs \<Rightarrow>
                              [Info (js ''Message attributes: '' @ decimal (length attrs) @
                                     js '' attribute(s)'')]);
                  input3 = (if truthy (messageStructure config)
                            then input2\<lparr>MessageStructure := messageStructure config\<rparr>
                            else input2);
                  log3 = (if truthy (messageStructure config)
                          then [Info (js ''Message structure: '' @
                                      template (messageStructure config))]
                          else []);
                  input4 = (if truthy (messageGroupId config)
                            then input3\<lparr>MessageGroupId := messageGroupId config\<rparr>
                            else input3);
                  log4 = (if truthy (messageGroupId config)
                          then [Info (js ''Message group ID: '' @
                                      template (messageGroupId config))]
                          else []);
                  input5 = (if truthy (messageDeduplicationId config)
                            then input4\<lparr>MessageDeduplicationId :=
                                           messageDeduplicationId config\<rparr>
                            else input4);
                  log5 = (if truthy (messageDeduplicationId config)
                          then [Info (js ''Message deduplication ID: '' @
                                      template (messageDeduplicationId config))]
                          else [])
              in (log1 @ log2 @ log3 @ log4 @ log5, Inr input5)))"

text \<open>
  The \<open>try\<close> block: the events in their order, and the result or the value thrown. The
  validators and the parser throw instances of \<open>Error\<close> whose message is a string. The
  line logged after a response starts with the three characters that the source file
  holds there.
\<close>

definition publishMessage_try ::
  "runtime \<Rightarrow> client \<Rightarrow> MessageConfig \<Rightarrow> event list \<times> (rejection + MessageResult)" where
  "publishMessage_try rt send config =
     (case validateTopicArn (topicArn config) of
        Inl e \<Rightarrow> ([], Inl (ErrorInstance (StringMessage e)))
      | Inr _ \<Rightarrow>
     (case validateMessage (message config) of
        Inl e \<Rightarrow> ([], Inl (ErrorInstance (StringMessage e)))
      | Inr _ \<Rightarrow>
     (case validateMessageStructure (messageStructure config) of
        Inl e \<Rightarrow> ([], Inl (ErrorInstance (StringMessage e)))
      | Inr _ \<Rightarrow>
     (case validateFifoTopic (topicArn config) (messageGroupId config) of
        Inl e \<Rightarrow> ([], Inl (ErrorInstance (StringMessage e)))
      | Inr warnings \<Rightarrow>
          (let log0 = map Warning warnings @
                 [Info (js ''Publishing message to topic: '' @ topicArn config),
                  Info (js ''Message size: '' @ decimal (byteLength (message config)) @
                        js '' bytes'')]
           in case buildInput rt config of
                (log1, Inl e) \<Rightarrow> (log0 @ log1, Inl (ErrorInstance (StringMessage e)))
              | (log1, Inr input) \<Rightarrow>
                  (case send input of
                     Inl thrown \<Rightarrow> (log0 @ log1 @ [Send input], Inl thrown)
                   | Inr response \<Rightarrow>
                       (log0 @ log1 @ [Send input] @
                        [Info ([0xE2, 0x153, 0x201C] @
                               js '' Message published successfully'')] @
                        (if truthy (MessageId response)
                         then [Info (js ''Message ID: '' @ template (MessageId response))]
                         else []) @
                        (if truthy (SequenceNumber response)
                         then [Info (js ''Sequence number: '' @
                                     template (SequenceNumber response))]
                         else []),
                        Inr \<lparr>success = True, messageId = MessageId response,
                             sequenceNumber = SequenceNumber response, error = None\<rparr>)))))))"

text \<open>
  Line 233, \<open>error instanceof Error ? error.message : String(error)\<close>: the value of
  \<open>errorMessage\<close>, or the message of what the line throws.
\<close>

definition errorMessage :: "rejection \<Rightarrow> jsstring + errmsg" where
  "errorMessage thrown =
     (case thrown of
        ErrorInstance m \<Rightarrow> Inr m
      | OtherValue s \<Rightarrow> Inr (StringMessage s)
      | Inscrutable t \<Rightarrow> Inl t)"

text \<open>
  \<open>errorMessage\<close> inside the template literal of line 234: the string printed, or the
  message of the \<open>TypeError\<close> thrown.
\<close>

definition interpolate :: "errmsg \<Rightarrow> jsstring + jsstring" where
  "interpolate m = (case m of StringMessage s \<Rightarrow> Inr s | OtherMessage r \<Rightarrow> r)"

text \<open>
  The function: the promise it returns resolves with a result (\<open>Inr\<close>), or rejects (\<open>Inl\<close>)
  when the \<open>catch\<close> block, which nothing guards, throws in its turn; that happens before
  \<open>core.error\<close> is called.
\<close>

definition publishMessage ::
  "runtime \<Rightarrow> client \<Rightarrow> MessageConfig \<Rightarrow> (jsstring + MessageResult) \<times> event list" where
  "publishMessage rt send config =
     (case publishMessage_try rt send config of
        (log, Inr result) \<Rightarrow> (Inr result, log)
      | (log, Inl thrown) \<Rightarrow>
          (case errorMessage thrown of
             Inl t \<Rightarrow> (Inl t, log)
           | Inr m \<Rightarrow>
               (case interpolate m of
                  Inl t \<Rightarrow> (Inl t, log)
                | Inr s \<Rightarrow>
                    (Inr \<lparr>success = False, messageId = None, sequenceNumber = None,
                          error = Some m\<rparr>,
                     log @ [ErrorLine (js ''Failed to publish message: '' @ s)]))))"

text \<open>The requests that a run handed to \<open>client.send\<close>.\<close>

fun sent :: "event list \<Rightarrow> PublishCommandInput list" where
  "sent [] = []"
| "sent (Send input # es) = input # sent es"
| "sent (e # es) = sent es"

section \<open>Vocabulary of the properties\<close>

text \<open>
  \<open>publishMessage\<close> returns the failure result: no success, the error message, no message
  id and no sequence number. \<open>failure e\<close> is that outcome when the message is the string
  \<open>e\<close>, and \<open>failedLine e\<close> the line logged then.
\<close>

definition failed :: "errmsg \<Rightarrow> MessageResult" where
  "failed m = \<lparr>success = False, messageId = None, sequenceNumber = None, error = Some m\<rparr>"

definition failure :: "jsstring \<Rightarrow> jsstring + MessageResult" where
  "failure e = Inr (failed (StringMessage e))"

text \<open>
  What the \<open>catch\<close> block makes of a rejection, in the words of the amended claim: the
  failure result with the message of the \<open>Error\<close> or with the string of another value, when
  the message can be taken and printed; and otherwise the rejection of the promise, with
  what the block throws.
\<close>

definition spec_caught :: "rejection \<Rightarrow> jsstring + MessageResult" where
  "spec_caught thrown =
     (case thrown of
        ErrorInstance (StringMessage s) \<Rightarrow> Inr (failed (StringMessage s))
      | ErrorInstance (OtherMessage (Inr s)) \<Rightarrow> Inr (failed (OtherMessage (Inr s)))
      | ErrorInstance (OtherMessage (Inl t)) \<Rightarrow> Inl t
      | OtherValue s \<Rightarrow> Inr (failed (StringMessage s))
      | Inscrutable t \<Rightarrow> Inl t)"

definition failedLine :: "jsstring \<Rightarrow> event" where
  "failedLine e = ErrorLine (js ''Failed to publish message: '' @ e)"

text \<open>
  The four validators pass on a configuration, and \<open>w\<close> are the warnings of the last one.
\<close>

definition validated :: "MessageConfig \<Rightarrow> jsstring list \<Rightarrow> bool" where
  "validated c w \<longleftrightarrow>
     validateTopicArn (topicArn c) = Inr () \<and> validateMessage (message c) = Inr () \<and>
     validateMessageStructure (messageStructure c) = Inr () \<and>
     validateFifoTopic (topicArn c) (messageGroupId c) = Inr w"

text \<open>
  The attributes that go into the request: none when the configuration has no attribute
  text or an empty one, and otherwise what \<open>parseMessageAttributes\<close> makes of the text,
  or its error.
\<close>

definition suppliedAttributes :: "runtime \<Rightarrow> MessageConfig \<Rightarrow> jsstring + attributes option" where
  "suppliedAttributes rt c =
     (case messageAttributes c of
        None \<Rightarrow> Inr None
      | Some a \<Rightarrow>
          if a = [] then Inr None
          else (case parseMessageAttributes rt a of Inl e \<Rightarrow> Inl e | Inr attrs \<Rightarrow> Inr (Some attrs)))"

text \<open>
  The request as the specification describes it: the topic ARN and the message, each
  optional field exactly when the caller supplied a non-empty value for it, and no other
  field.
\<close>

definition spec_optional :: "jsstring option \<Rightarrow> jsstring option" where
  "spec_optional x = (case x of None \<Rightarrow> None | Some s \<Rightarrow> if s = [] then None else Some s)"

definition spec_request :: "MessageConfig \<Rightarrow> attributes option \<Rightarrow> PublishCommandInput" where
  "spec_request c attrs =
     \<lparr>TopicArn = topicArn c, TargetArn = None, PhoneNumber = None, Message = message c,
      Subject = spec_optional (subject c),
      MessageStructure = spec_optional (messageStructure c),
      MessageAttributes = attrs,
      MessageDeduplicationId = spec_optional (messageDeduplicationId c),
      MessageGroupId = spec_optional (messageGroupId c)\<rparr>"

text \<open>
  The shape of a topic ARN in the words of the specification: the prefix \<open>arn:aws:sns:\<close>, a
  region of one or more lowercase letters, digits or hyphens, a colon, an account id of one
  or more digits, a colon, and a non-empty name.
\<close>

definition spec_arn_shape :: "jsstring \<Rightarrow> jsstring \<Rightarrow> jsstring \<Rightarrow> jsstring \<Rightarrow> bool" where
  "spec_arn_shape s region account name \<longleftrightarrow>
     s = js ''arn:aws:sns:'' @ region @ js '':'' @ account @ js '':'' @ name \<and>
     region \<noteq> [] \<and> list_all region_class region \<and>
     account \<noteq> [] \<and> list_all digit_class account \<and>
     name \<noteq> []"

text \<open>
  What \<open>parseMessageAttributes\<close> requires of one entry of the parsed value: its \<open>DataType\<close>
  is one of the four strings, the property the type calls for is present
  (\<open>BinaryValue\<close> for \<open>Binary\<close>, \<open>StringValue\<close> for the others), and, whatever the type,
  \<open>String\<close> can convert the \<open>StringValue\<close> when there is one and \<open>Buffer.from\<close> accepts the
  \<open>BinaryValue\<close> when there is one. \<open>entry_attribute\<close> is the attribute then made of the entry, and \<open>collect\<close> assigns
  the attributes of a list of entries, in their order.
\<close>

definition accepted_entry :: "runtime \<Rightarrow> json \<Rightarrow> bool" where
  "accepted_entry rt v =
     (case property v (js ''DataType'') of
        Some (JStr d) \<Rightarrow>
          d \<in> set validDataTypes \<and>
          (if d = js ''Binary'' then property v (js ''BinaryValue'') \<noteq> None
           else property v (js ''StringValue'') \<noteq> None) \<and>
          (case property v (js ''StringValue'') of
             None \<Rightarrow> True | Some x \<Rightarrow> \<not> isl (ToString x)) \<and>
          (case property v (js ''BinaryValue'') of
             None \<Rightarrow> True | Some x \<Rightarrow> \<not> isl (Buffer_from_base64 rt x))
      | _ \<Rightarrow> False)"

definition entry_attribute :: "runtime \<Rightarrow> json \<Rightarrow> MessageAttributeValue" where
  "entry_attribute rt v =
     \<lparr>DataType = string_of (property v (js ''DataType'')),
      StringValue = map_option (\<lambda>x. projr (ToString x)) (property v (js ''StringValue'')),
      BinaryValue =
        map_option (\<lambda>x. projr (Buffer_from_base64 rt x)) (property v (js ''BinaryValue''))\<rparr>"

fun collect :: "runtime \<Rightarrow> (jsstring \<times> json) list \<Rightarrow> attributes \<Rightarrow> attributes" where
  "collect rt [] attrs = attrs"
| "collect rt ((key, v) # rest) attrs = collect rt rest (assign attrs key (entry_attribute rt v))"

text \<open>The message of an error as \<open>parseMessageAttributes\<close> rethrows it.\<close>

definition wrapped :: "jsstring \<Rightarrow> jsstring" where
  "wrapped e = js ''Failed to parse message attributes: '' @ e"



section \<open>Inputs of the examples\<close>

text \<open>A message of 131073 code units \<open>U+00E9\<close>, each of two bytes in UTF-8.\<close>

definition wide_message :: jsstring where
  "wide_message = replicate 131073 0xE9"

text \<open>
  Topic ARNs: a standard one, a FIFO one, one whose name holds a line feed, and two that
  lack the prefix.
\<close>

definition standard_arn :: jsstring where
  "standard_arn = js ''arn:aws:sns:us-east-1:123456789012:my-topic''"

definition fifo_arn :: jsstring where
  "fifo_arn = js ''arn:aws:sns:us-east-1:123456789012:my-topic.fifo''"

definition newline_name :: jsstring where
  "newline_name = js ''my'' @ [0x0A] @ js ''topic''"

definition newline_arn :: jsstring where
  "newline_arn = js ''arn:aws:sns:us-east-1:123456789012:'' @ newline_name"

definition bad_arn :: jsstring where
  "bad_arn = js ''sns:us-east-1:123:x''"

definition bad_fifo_arn :: jsstring where
  "bad_fifo_arn = js ''my-topic.fifo''"

text \<open>Attribute texts, and the values that \<open>JSON.parse\<close> returns for them.\<close>

definition attribute_text :: jsstring where
  \<open>attribute_text = js ''{"A":{"DataType":"String","StringValue":"x"}}''\<close>

definition attribute_value :: json where
  "attribute_value =
     JObj [(js ''A'', JObj [(js ''DataType'', JStr (js ''String'')),
                           (js ''StringValue'', JStr (js ''x''))])]"

definition attribute_parsed :: attributes where
  "attribute_parsed =
     [(js ''A'', \<lparr>DataType = js ''String'', StringValue = Some (js ''x''), BinaryValue = None\<rparr>)]"

definition both_text :: jsstring where
  \<open>both_text = js ''{"B":{"DataType":"Binary","BinaryValue":"aGk=","StringValue":"x"}}''\<close>

definition both_value :: json where
  "both_value =
     JObj [(js ''B'', JObj [(js ''DataType'', JStr (js ''Binary'')),
                           (js ''BinaryValue'', JStr (js ''aGk='')),
                           (js ''StringValue'', JStr (js ''x''))])]"

definition both_parsed :: attributes where
  "both_parsed =
     [(js ''B'', \<lparr>DataType = js ''Binary'', StringValue = Some (js ''x''),
                  BinaryValue = Some [0x68, 0x69]\<rparr>)]"

definition null_text :: jsstring where
  \<open>null_text = js ''{"A":{"DataType":"String","StringValue":null}}''\<close>

definition null_value :: json where
  "null_value =
     JObj [(js ''A'', JObj [(js ''DataType'', JStr (js ''String'')),
                           (js ''StringValue'', JNull)])]"

definition binary_text :: jsstring where
  \<open>binary_text = js ''{"B":{"DataType":"Binary","BinaryValue":"aGk="}}''\<close>

definition binary_value :: json where
  "binary_value =
     JObj [(js ''B'', JObj [(js ''DataType'', JStr (js ''Binary'')),
                           (js ''BinaryValue'', JStr (js ''aGk=''))])]"


definition number_text :: jsstring where
  \<open>number_text = js ''{"N":{"DataType":"Number"}}''\<close>

definition number_value :: json where
  "number_value = JObj [(js ''N'', JObj [(js ''DataType'', JStr (js ''Number''))])]"

definition eleven_text :: jsstring where
  \<open>eleven_text =
     js ''{"a":1,"b":1,"c":1,"d":1,"e":1,"f":1,"g":1,"h":1,"i":1,"j":1,"k":1}''\<close>

definition eleven_entries :: "(jsstring \<times> json) list" where
  "eleven_entries =
     [(js ''a'', JNum (js ''1'')), (js ''b'', JNum (js ''1'')), (js ''c'', JNum (js ''1'')),
      (js ''d'', JNum (js ''1'')), (js ''e'', JNum (js ''1'')), (js ''f'', JNum (js ''1'')),
      (js ''g'', JNum (js ''1'')), (js ''h'', JNum (js ''1'')), (js ''i'', JNum (js ''1'')),
      (js ''j'', JNum (js ''1'')), (js ''k'', JNum (js ''1''))]"

definition eleven_value :: json where
  "eleven_value = JObj eleven_entries"

definition broken_text :: jsstring where
  "broken_text = js ''{''"

text \<open>
  A runtime for the examples. Its \<open>JSON.parse\<close> knows the texts above, with the values they
  denote, and answers every other text with a syntax error; its \<open>Buffer.from\<close> knows the
  base64 text \<open>aGk=\<close>, the two bytes of \<open>hi\<close>.
\<close>

definition sample_texts :: "(jsstring \<times> json) list" where
  "sample_texts =
     [(js ''[]'', JArr []), (attribute_text, attribute_value), (both_text, both_value),
      (null_text, null_value), (binary_text, binary_value), (number_text, number_value),
      (eleven_text, eleven_value)]"

definition sample_parse :: "jsstring \<Rightarrow> jsstring + json" where
  "sample_parse s =
     (case map_of sample_texts s of
        Some v \<Rightarrow> Inr v
      | None \<Rightarrow> Inl (js ''Unexpected end of JSON input''))"

definition sample_decode :: "json \<Rightarrow> jsstring + 8 word list" where
  "sample_decode v =
     (if v = JStr (js ''aGk='') then Inr [0x68, 0x69]
      else Inl (js ''The first argument must be of type string''))"

definition sample_runtime :: runtime where
  "sample_runtime = \<lparr>JSON_parse = sample_parse, Buffer_from_base64 = sample_decode\<rparr>"

text \<open>
  Clients: one that answers with a message id and a sequence number, one whose response
  has neither, one that rejects with an \<open>Error\<close>, and one that rejects with
  \<open>Object.create(null)\<close>, on which \<open>String\<close> throws.
\<close>

definition sample_client :: client where
  "sample_client input = Inr \<lparr>MessageId = Some (js ''id-1''), SequenceNumber = Some (js ''1'')\<rparr>"




text \<open>Configurations.\<close>

definition group_id :: jsstring where
  "group_id = js ''g1''"

definition subject_text :: jsstring where
  "subject_text = js ''Production Deployment''"

definition standard_config :: MessageConfig where
  "standard_config =
     \<lparr>topicArn = standard_arn, message = js ''Hello'', subject = None,
      messageAttributes = None, messageGroupId = None, messageDeduplicationId = None,
      messageStructure = None\<rparr>"

definition full_config :: MessageConfig where
  "full_config =
     \<lparr>topicArn = fifo_arn, message = js ''Hello'', subject = Some subject_text,
      messageAttributes = Some attribute_text, messageGroupId = Some group_id,
      messageDeduplicationId = Some [], messageStructure = Some (js ''json'')\<rparr>"

section \<open>The size of a message\<close>

lemma length_encode_scalar: "length (encode (scalar c)) = unit_bytes c"
proof -
  have "unat c < 65536" using unsigned_less [of c, where 'a = nat] by simp
  moreover have "c < 0x80 \<longleftrightarrow> unat c < 0x80" by (simp add: word_less_nat_alt)
  moreover have "c < 0x800 \<longleftrightarrow> unat c < 0x800" by (simp add: word_less_nat_alt)
  moreover have "is_lead c \<or> is_trail c \<Longrightarrow> \<not> unat c < 0x800"
    by (auto simp: is_lead_def is_trail_def word_le_nat_alt)
  ultimately show ?thesis
    by (auto simp: encode_def scalar_def unit_bytes_def)
qed

lemma length_encode_pair: "length (encode (codePoint hi lo)) = 4"
  by (simp add: encode_def codePoint_def)

lemma byteLength_utf8: "byteLength s = length (utf8 s)"
  by (induction s rule: byteLength.induct)
    (simp_all add: length_encode_scalar length_encode_pair)

lemma byteLength_Cons_not_lead:
  "\<not> is_lead c \<Longrightarrow> byteLength (c # cs) = unit_bytes c + byteLength cs"
  by (cases cs) simp_all

lemma byteLength_replicate: "\<not> is_lead c \<Longrightarrow> byteLength (replicate n c) = n * unit_bytes c"
  by (induction n) (simp_all add: byteLength_Cons_not_lead)

lemma length_le_byteLength: "length s \<le> byteLength s"
  by (induction s rule: byteLength.induct) (auto simp: unit_bytes_def)

lemma decimal_max: "decimal 262144 = js ''262144''"
  by (simp add: decimal.simps js_def)

lemma wide_message_length: "length wide_message = 131073"
  by (simp add: wide_message_def)

lemma wide_message_bytes: "length (utf8 wide_message) = 262146"
  unfolding wide_message_def byteLength_utf8 [symmetric]
  by (subst byteLength_replicate) (simp_all add: is_lead_def unit_bytes_def)

text \<open>
  C4: \<open>validateMessage\<close> succeeds if and only if the UTF-8 encoding of the body has at most
  262144 bytes; past that limit it fails with a message that gives the number of bytes of
  the body and the maximum. The number of bytes is never below the number of code units,
  and the witness is a body of 131073 code units, below the limit as a count of
  characters, that is rejected for its 262146 bytes.
\<close>

theorem validateMessage_spec:
  "(validateMessage m = Inr () \<longleftrightarrow> length (utf8 m) \<le> 262144) \<and>
   (262144 < length (utf8 m) \<longrightarrow>
      validateMessage m =
        Inl (js ''Message size ('' @ decimal (length (utf8 m)) @
             js '' bytes) exceeds maximum allowed size ('' @ js ''262144'' @
             js '' bytes / 256 KB)'')) \<and>
   length m \<le> length (utf8 m)"
  using length_le_byteLength [of m]
  by (simp add: validateMessage_def Let_def byteLength_utf8 [symmetric] decimal_max)

theorem validateMessage_spec_witness:
  "length wide_message \<le> 262144 \<and> 262144 < length (utf8 wide_message) \<and>
   validateMessage wide_message =
     Inl (js ''Message size (262146 bytes) exceeds maximum allowed size (262144 bytes / 256 KB)'')"
proof -
  have dec: "decimal 262146 = js ''262146''"
    by (simp add: decimal.simps js_def)
  show ?thesis
    using validateMessage_spec [of wide_message]
    by (simp add: wide_message_length wide_message_bytes dec js_def)
qed

section \<open>The structure mode\<close>

text \<open>
  C9: \<open>validateMessageStructure\<close> succeeds when the value is absent and when it is the
  literal \<open>json\<close>; for every other value it fails, and the message names the value between
  quotes.
\<close>

theorem validateMessageStructure_spec:
  "validateMessageStructure None = Inr () \<and>
   validateMessageStructure (Some (js ''json'')) = Inr () \<and>
   (s \<noteq> js ''json'' \<longrightarrow>
      validateMessageStructure (Some s) =
        Inl (js ''Invalid message-structure: '' @ dquote @ s @ dquote @
             js ''. Must be '' @ dquote @ js ''json'' @ dquote @ js '' or left empty.''))"
  by (simp add: validateMessageStructure_def)

theorem validateMessageStructure_spec_witness:
  "js ''xml'' \<noteq> js ''json'' \<and>
   validateMessageStructure (Some (js ''xml'')) =
     Inl (js ''Invalid message-structure: '' @ dquote @ js ''xml'' @ dquote @
          js ''. Must be '' @ dquote @ js ''json'' @ dquote @ js '' or left empty.'')"
  using validateMessageStructure_spec [of "js ''xml''"] by (simp add: js_def)

section \<open>The topic ARN\<close>

text \<open>What \<open>test\<close> accepts, atom by atom.\<close>

lemmas class_defs = region_class_def digit_class_def dot_class_def line_terminator_def

lemma test_Lit: "test (Lit l # r) s \<longleftrightarrow> (\<exists>b. s = l @ b \<and> test r b)"
  by (auto simp: prefix_def)

lemma test_OneOrMore:
  "test (OneOrMore p # r) s \<longleftrightarrow>
     (\<exists>a b. s = a @ b \<and> a \<noteq> [] \<and> (\<forall>x\<in>set a. p x) \<and> test r b)"
proof (induction s)
  case Nil
  then show ?case by simp
next
  case (Cons c cs)
  show ?case
  proof
    assume "test (OneOrMore p # r) (c # cs)"
    then have pc: "p c" and rest: "test r cs \<or> test (OneOrMore p # r) cs"
      by simp_all
    from rest show "\<exists>a b. c # cs = a @ b \<and> a \<noteq> [] \<and> (\<forall>x\<in>set a. p x) \<and> test r b"
    proof
      assume "test r cs"
      with pc have "c # cs = [c] @ cs \<and> [c] \<noteq> [] \<and> (\<forall>x\<in>set [c]. p x) \<and> test r cs"
        by simp
      then show ?thesis by blast
    next
      assume "test (OneOrMore p # r) cs"
      with Cons.IH obtain a b where "cs = a @ b" "a \<noteq> []" "\<forall>x\<in>set a. p x" "test r b"
        by blast
      with pc have "c # cs = (c # a) @ b \<and> c # a \<noteq> [] \<and> (\<forall>x\<in>set (c # a). p x) \<and> test r b"
        by simp
      then show ?thesis by blast
    qed
  next
    assume "\<exists>a b. c # cs = a @ b \<and> a \<noteq> [] \<and> (\<forall>x\<in>set a. p x) \<and> test r b"
    then obtain a b where ab: "c # cs = a @ b" "a \<noteq> []" "\<forall>x\<in>set a. p x" "test r b"
      by blast
    then obtain a' where a: "a = c # a'" and cs: "cs = a' @ b"
      by (cases a) auto
    show "test (OneOrMore p # r) (c # cs)"
    proof (cases "a' = []")
      case True
      with ab a cs show ?thesis by simp
    next
      case False
      with ab a cs have "\<exists>a b. cs = a @ b \<and> a \<noteq> [] \<and> (\<forall>x\<in>set a. p x) \<and> test r b"
        by auto
      with Cons.IH have "test (OneOrMore p # r) cs" by simp
      with ab a show ?thesis by simp
    qed
  qed
qed

lemma test_arnPattern:
  "test arnPattern s \<longleftrightarrow>
     (\<exists>region account name. spec_arn_shape s region account name \<and> \<not> list_ex line_terminator name)"
  unfolding arnPattern_def test_Lit test_OneOrMore spec_arn_shape_def
  by (simp add: list_all_iff list_ex_iff dot_class_def) blast

lemma standard_arn_ok: "validateTopicArn standard_arn = Inr ()"
  by (simp add: validateTopicArn_def standard_arn_def arnPattern_def js_def class_defs)

lemma fifo_arn_ok: "validateTopicArn fifo_arn = Inr ()"
  by (simp add: validateTopicArn_def fifo_arn_def arnPattern_def js_def class_defs)

lemma newline_arn_fails: "validateTopicArn newline_arn \<noteq> Inr ()"
  by (simp add: validateTopicArn_def newline_arn_def newline_name_def arnPattern_def js_def class_defs)

lemma bad_arn_fails:
  "validateTopicArn bad_arn =
     Inl (js ''Invalid topic ARN format: '' @ dquote @ bad_arn @ dquote @ js ''. '' @
          js ''Expected format: arn:aws:sns:{region}:{account-id}:{topic-name}'')"
  by (simp add: validateTopicArn_def bad_arn_def arnPattern_def js_def)

lemma bad_fifo_arn_fails:
  "validateTopicArn bad_fifo_arn =
     Inl (js ''Invalid topic ARN format: '' @ dquote @ bad_fifo_arn @ dquote @ js ''. '' @
          js ''Expected format: arn:aws:sns:{region}:{account-id}:{topic-name}'')"
  by (simp add: validateTopicArn_def bad_fifo_arn_def arnPattern_def js_def)

lemma standard_arn_suffix: "\<not> suffix (js ''.fifo'') standard_arn"
  by (simp add: standard_arn_def js_def suffix_def)

lemma fifo_arn_suffix: "suffix (js ''.fifo'') fifo_arn"
  by (simp add: fifo_arn_def js_def suffix_def)

lemma standard_arn_shape:
  "spec_arn_shape standard_arn (js ''us-east-1'') (js ''123456789012'') (js ''my-topic'')"
  by (simp add: spec_arn_shape_def standard_arn_def js_def class_defs)

text \<open>
  C3, amended: \<open>validateTopicArn\<close> succeeds if and only if the string is
  \<open>arn:aws:sns:\<close>, a region of one or more lowercase letters, digits or hyphens, a colon,
  an account id of one or more digits, a colon, and a non-empty name that holds no line
  terminator (line feed, carriage return, U+2028, U+2029); otherwise it fails with the
  message that quotes the string and gives the expected format.
\<close>

theorem validateTopicArn_spec:
  "(validateTopicArn s = Inr () \<longleftrightarrow>
      (\<exists>region account name.
         spec_arn_shape s region account name \<and> \<not> list_ex line_terminator name)) \<and>
   (validateTopicArn s = Inr () \<or>
    validateTopicArn s =
      Inl (js ''Invalid topic ARN format: '' @ dquote @ s @ dquote @ js ''. '' @
           js ''Expected format: arn:aws:sns:{region}:{account-id}:{topic-name}''))"
  by (simp add: validateTopicArn_def test_arnPattern)

theorem validateTopicArn_spec_witness:
  "spec_arn_shape standard_arn (js ''us-east-1'') (js ''123456789012'') (js ''my-topic'') \<and>
   \<not> list_ex line_terminator (js ''my-topic'') \<and>
   validateTopicArn standard_arn = Inr ()"
proof -
  have nl: "\<not> list_ex line_terminator (js ''my-topic'')"
    by (simp add: js_def line_terminator_def)
  from standard_arn_shape nl validateTopicArn_spec [of standard_arn]
  show ?thesis by blast
qed

text \<open>
  The claim as stated lets the name be any non-empty remainder. A string of the stated
  shape whose name holds a line feed is rejected: the \<open>.\<close> of the pattern does not match it.
\<close>

theorem validateTopicArn_counterexample:
  "spec_arn_shape newline_arn (js ''us-east-1'') (js ''123456789012'') newline_name \<and>
   validateTopicArn newline_arn \<noteq> Inr ()"
  by (simp add: spec_arn_shape_def validateTopicArn_def newline_arn_def newline_name_def
      arnPattern_def js_def class_defs)

section \<open>The runs of \<open>publishMessage\<close>\<close>

text \<open>
  The command input is the request of the specification, and building it sends nothing.
\<close>

lemma sent_append: "sent (xs @ ys) = sent xs @ sent ys"
  by (induction xs rule: sent.induct) simp_all

lemma sent_Warning: "sent (map Warning w) = []"
  by (induction w) simp_all

lemma sent_failedLine: "sent [failedLine e] = []"
  by (simp add: failedLine_def)

lemma spec_optional_truthy: "spec_optional x = (if truthy x then x else None)"
  by (simp add: spec_optional_def truthy_def split: option.splits)

lemma spec_optional_None: "spec_optional x = None \<longleftrightarrow> \<not> truthy x"
  by (simp add: spec_optional_def truthy_def split: option.splits)

lemma spec_optional_Some: "truthy x \<Longrightarrow> spec_optional x = x"
  by (simp add: spec_optional_def truthy_def split: option.splits)

lemma buildInput_snd:
  "snd (buildInput rt c) =
     (case suppliedAttributes rt c of Inl e \<Rightarrow> Inl e | Inr a \<Rightarrow> Inr (spec_request c a))"
  by (simp add: buildInput_def suppliedAttributes_def spec_request_def spec_optional_truthy
      Let_def truthy_def template_def split: sum.splits option.splits)

lemma buildInput_sent: "sent (fst (buildInput rt c)) = []"
  by (simp add: buildInput_def Let_def sent_append split: sum.splits option.splits)

text \<open>A run ends at the first validator that fails.\<close>

lemma publishMessage_arn:
  "validateTopicArn (topicArn c) = Inl e \<Longrightarrow>
   publishMessage rt send c = (failure e, [failedLine e])"
  by (simp add: publishMessage_def publishMessage_try_def failure_def failed_def failedLine_def
      errorMessage_def interpolate_def)

lemma publishMessage_size:
  "validateTopicArn (topicArn c) = Inr () \<Longrightarrow> validateMessage (message c) = Inl e \<Longrightarrow>
   publishMessage rt send c = (failure e, [failedLine e])"
  by (simp add: publishMessage_def publishMessage_try_def failure_def failed_def failedLine_def
      errorMessage_def interpolate_def)

lemma publishMessage_structure:
  "validateTopicArn (topicArn c) = Inr () \<Longrightarrow> validateMessage (message c) = Inr () \<Longrightarrow>
   validateMessageStructure (messageStructure c) = Inl e \<Longrightarrow>
   publishMessage rt send c = (failure e, [failedLine e])"
  by (simp add: publishMessage_def publishMessage_try_def failure_def failed_def failedLine_def
      errorMessage_def interpolate_def)

lemma publishMessage_fifo:
  "validateTopicArn (topicArn c) = Inr () \<Longrightarrow> validateMessage (message c) = Inr () \<Longrightarrow>
   validateMessageStructure (messageStructure c) = Inr () \<Longrightarrow>
   validateFifoTopic (topicArn c) (messageGroupId c) = Inl e \<Longrightarrow>
   publishMessage rt send c = (failure e, [failedLine e])"
  by (simp add: publishMessage_def publishMessage_try_def failure_def failed_def failedLine_def
      errorMessage_def interpolate_def)

text \<open>
  Past the validators, a run ends at the attribute parser, or it sends one request and
  ends with the rejection or the response of the client.
\<close>

lemma publishMessage_parse:
  assumes "validated c w" and "suppliedAttributes rt c = Inl e"
  shows "fst (publishMessage rt send c) = failure e"
    and "sent (snd (publishMessage rt send c)) = []"
    and "\<exists>rest. snd (publishMessage rt send c) = map Warning w @ rest"
proof -
  obtain log1 where b: "buildInput rt c = (log1, Inl e)"
    using buildInput_snd [of rt c] assms(2) by (cases "buildInput rt c") simp
  have s: "sent log1 = []"
    using buildInput_sent [of rt c] b by simp
  show "fst (publishMessage rt send c) = failure e"
    using assms(1) b
    by (simp add: validated_def publishMessage_def publishMessage_try_def failure_def failed_def
        errorMessage_def interpolate_def)
  show "sent (snd (publishMessage rt send c)) = []"
    using assms(1) b s
    by (simp add: validated_def publishMessage_def publishMessage_try_def errorMessage_def
        interpolate_def sent_append sent_Warning)
  show "\<exists>rest. snd (publishMessage rt send c) = map Warning w @ rest"
    using assms(1) b
    by (simp add: validated_def publishMessage_def publishMessage_try_def errorMessage_def
        interpolate_def)
qed

lemma publishMessage_rejected:
  assumes "validated c w" and "suppliedAttributes rt c = Inr attrs"
    and "send (spec_request c attrs) = Inl thrown"
  shows "fst (publishMessage rt send c) = spec_caught thrown"
    and "sent (snd (publishMessage rt send c)) = [spec_request c attrs]"
    and "\<exists>rest. snd (publishMessage rt send c) = map Warning w @ rest"
proof -
  obtain log1 where b: "buildInput rt c = (log1, Inr (spec_request c attrs))"
    using buildInput_snd [of rt c] assms(2) by (cases "buildInput rt c") simp
  have s: "sent log1 = []"
    using buildInput_sent [of rt c] b by simp
  show "fst (publishMessage rt send c) = spec_caught thrown"
    using assms(1,3) b
    by (simp add: validated_def publishMessage_def publishMessage_try_def errorMessage_def
        interpolate_def spec_caught_def failed_def
        split: rejection.splits errmsg.splits sum.splits)
  show "sent (snd (publishMessage rt send c)) = [spec_request c attrs]"
    using assms(1,3) b s
    by (simp add: validated_def publishMessage_def publishMessage_try_def errorMessage_def
        interpolate_def sent_append sent_Warning
        split: rejection.splits errmsg.splits sum.splits)
  show "\<exists>rest. snd (publishMessage rt send c) = map Warning w @ rest"
    using assms(1,3) b
    by (simp add: validated_def publishMessage_def publishMessage_try_def errorMessage_def
        interpolate_def split: rejection.splits errmsg.splits sum.splits)
qed

lemma publishMessage_resolved:
  assumes "validated c w" and "suppliedAttributes rt c = Inr attrs"
    and "send (spec_request c attrs) = Inr response"
  shows "fst (publishMessage rt send c) =
           Inr \<lparr>success = True, messageId = MessageId response,
                sequenceNumber = SequenceNumber response, error = None\<rparr>"
    and "sent (snd (publishMessage rt send c)) = [spec_request c attrs]"
    and "\<exists>rest. snd (publishMessage rt send c) = map Warning w @ rest"
proof -
  obtain log1 where b: "buildInput rt c = (log1, Inr (spec_request c attrs))"
    using buildInput_snd [of rt c] assms(2) by (cases "buildInput rt c") simp
  have s: "sent log1 = []"
    using buildInput_sent [of rt c] b by simp
  show "fst (publishMessage rt send c) =
           Inr \<lparr>success = True, messageId = MessageId response,
                sequenceNumber = SequenceNumber response, error = None\<rparr>"
    using assms(1,3) b
    by (simp add: validated_def publishMessage_def publishMessage_try_def)
  show "sent (snd (publishMessage rt send c)) = [spec_request c attrs]"
    using assms(1,3) b s
    by (simp add: validated_def publishMessage_def publishMessage_try_def sent_append sent_Warning)
  show "\<exists>rest. snd (publishMessage rt send c) = map Warning w @ rest"
    using assms(1,3) b
    by (simp add: validated_def publishMessage_def publishMessage_try_def)
qed

text \<open>
  On a FIFO topic, a run with no group id, or with the empty one, ends at the first three
  validators or at the fourth.
\<close>

lemma publishMessage_no_group:
  assumes "suffix (js ''.fifo'') (topicArn c)" and "\<not> truthy g"
  shows "publishMessage rt send (c\<lparr>messageGroupId := g\<rparr>) =
     (case validateTopicArn (topicArn c) of
        Inl e \<Rightarrow> (failure e, [failedLine e])
      | Inr _ \<Rightarrow>
     (case validateMessage (message c) of
        Inl e \<Rightarrow> (failure e, [failedLine e])
      | Inr _ \<Rightarrow>
     (case validateMessageStructure (messageStructure c) of
        Inl e \<Rightarrow> (failure e, [failedLine e])
      | Inr _ \<Rightarrow> (failure fifoRequired, [failedLine fifoRequired]))))"
  using assms
  by (simp add: publishMessage_def publishMessage_try_def validateFifoTopic_def failure_def
      failed_def failedLine_def errorMessage_def interpolate_def split: sum.splits)

text \<open>The validators on the examples.\<close>

lemma hello_ok: "validateMessage (js ''Hello'') = Inr ()"
  by (simp add: validateMessage_def js_def unit_bytes_def is_lead_def)

lemma wide_message_fails:
  "validateMessage wide_message =
     Inl (js ''Message size (262146 bytes) exceeds maximum allowed size (262144 bytes / 256 KB)'')"
proof -
  have "decimal 262146 = js ''262146''"
    by (simp add: decimal.simps js_def)
  then show ?thesis
    using wide_message_bytes
    by (simp add: validateMessage_def byteLength_utf8 decimal_max js_def)
qed

lemma xml_fails:
  "validateMessageStructure (Some (js ''xml'')) =
     Inl (js ''Invalid message-structure: '' @ dquote @ js ''xml'' @ dquote @
          js ''. Must be '' @ dquote @ js ''json'' @ dquote @ js '' or left empty.'')"
  by (simp add: validateMessageStructure_def js_def)

lemma fifo_fails: "validateFifoTopic fifo_arn None = Inl fifoRequired"
  by (simp add: validateFifoTopic_def fifo_arn_suffix truthy_def)

lemma standard_structure: "validateMessageStructure None = Inr ()"
  by (simp add: validateMessageStructure_def)

lemma standard_fifo: "validateFifoTopic standard_arn None = Inr []"
  by (simp add: validateFifoTopic_def standard_arn_suffix truthy_def)

lemma standard_fields:
  "topicArn standard_config = standard_arn" "message standard_config = js ''Hello''"
  "subject standard_config = None" "messageAttributes standard_config = None"
  "messageGroupId standard_config = None" "messageDeduplicationId standard_config = None"
  "messageStructure standard_config = None"
  by (simp_all add: standard_config_def)

lemma full_fields:
  "topicArn full_config = fifo_arn" "message full_config = js ''Hello''"
  "subject full_config = Some subject_text" "messageAttributes full_config = Some attribute_text"
  "messageGroupId full_config = Some group_id" "messageDeduplicationId full_config = Some []"
  "messageStructure full_config = Some (js ''json'')"
  by (simp_all add: full_config_def)

lemma group_id_nonempty: "group_id \<noteq> []"
  by (simp add: group_id_def js_def)

lemma subject_text_nonempty: "subject_text \<noteq> []"
  by (simp add: subject_text_def js_def)

lemma json_nonempty: "js ''json'' \<noteq> []"
  by (simp add: js_def)



lemma validated_group:
  "validated (standard_config\<lparr>messageGroupId := Some group_id\<rparr>) [fifoWarning]"
  by (simp add: validated_def standard_config_def standard_arn_ok hello_ok
      validateMessageStructure_def validateFifoTopic_def standard_arn_suffix truthy_def
      group_id_nonempty)

section \<open>The FIFO precondition\<close>

text \<open>
  C5, amended: \<open>validateFifoTopic\<close> fails, with the message that the group id is required,
  exactly when the ARN ends with \<open>.fifo\<close> and the group id is absent or empty, and it fails
  in no other way. When the ARN does not end with \<open>.fifo\<close> and a non-empty group id is
  supplied, it returns with one warning; in a run of \<open>publishMessage\<close> that passes the
  validators and the attribute parser, the warning is the first event and the one request
  sent carries the group id.
\<close>

theorem validateFifoTopic_spec:
  "(validateFifoTopic arn gid = Inl fifoRequired \<longleftrightarrow>
      suffix (js ''.fifo'') arn \<and> spec_optional gid = None) \<and>
   (validateFifoTopic arn gid = Inl e \<longrightarrow> e = fifoRequired) \<and>
   (\<not> suffix (js ''.fifo'') arn \<and> spec_optional gid \<noteq> None \<longrightarrow>
      validateFifoTopic arn gid = Inr [fifoWarning]) \<and>
   (\<not> suffix (js ''.fifo'') (topicArn c) \<and> spec_optional (messageGroupId c) \<noteq> None \<and>
    validated c w \<and> suppliedAttributes rt c = Inr attrs \<longrightarrow>
      (\<exists>rest. snd (publishMessage rt send c) = Warning fifoWarning # rest) \<and>
      map MessageGroupId (sent (snd (publishMessage rt send c))) = [messageGroupId c])"
proof (intro conjI impI)
  show "validateFifoTopic arn gid = Inl fifoRequired \<longleftrightarrow>
          suffix (js ''.fifo'') arn \<and> spec_optional gid = None"
    by (simp add: validateFifoTopic_def spec_optional_None Let_def)
  show "e = fifoRequired" if "validateFifoTopic arn gid = Inl e"
    using that by (simp add: validateFifoTopic_def Let_def split: if_splits)
  show "validateFifoTopic arn gid = Inr [fifoWarning]"
    if "\<not> suffix (js ''.fifo'') arn \<and> spec_optional gid \<noteq> None"
    using that by (simp add: validateFifoTopic_def spec_optional_None Let_def)
next
  assume a: "\<not> suffix (js ''.fifo'') (topicArn c) \<and> spec_optional (messageGroupId c) \<noteq> None \<and>
    validated c w \<and> suppliedAttributes rt c = Inr attrs"
  then have w: "w = [fifoWarning]"
    by (auto simp: validated_def validateFifoTopic_def spec_optional_None Let_def split: if_splits)
  from a have g: "spec_optional (messageGroupId c) = messageGroupId c"
    by (simp add: spec_optional_None spec_optional_Some)
  have "\<exists>rest. snd (publishMessage rt send c) = map Warning w @ rest"
    and "sent (snd (publishMessage rt send c)) = [spec_request c attrs]"
    using a publishMessage_rejected [of c w rt attrs send] publishMessage_resolved [of c w rt attrs send]
    by (cases "send (spec_request c attrs)"; simp)+
  then show "\<exists>rest. snd (publishMessage rt send c) = Warning fifoWarning # rest"
    and "map MessageGroupId (sent (snd (publishMessage rt send c))) = [messageGroupId c]"
    using w g by (simp_all add: spec_request_def)
qed

theorem validateFifoTopic_spec_witness:
  "validateFifoTopic fifo_arn None = Inl fifoRequired \<and>
   \<not> suffix (js ''.fifo'') standard_arn \<and> spec_optional (Some group_id) \<noteq> None \<and>
   validated (standard_config\<lparr>messageGroupId := Some group_id\<rparr>) [fifoWarning] \<and>
   validateFifoTopic standard_arn (Some group_id) = Inr [fifoWarning] \<and>
   map MessageGroupId
     (sent (snd (publishMessage sample_runtime sample_client
                   (standard_config\<lparr>messageGroupId := Some group_id\<rparr>)))) = [Some group_id]"
proof -
  have s: "spec_optional (Some group_id) \<noteq> None"
    by (simp add: spec_optional_def group_id_nonempty)
  have f: "suffix (js ''.fifo'') fifo_arn \<and> spec_optional None = None"
    by (simp add: fifo_arn_suffix spec_optional_def)
  have a: "suppliedAttributes sample_runtime (standard_config\<lparr>messageGroupId := Some group_id\<rparr>) = Inr None"
    by (simp add: suppliedAttributes_def standard_config_def)
  have t: "topicArn (standard_config\<lparr>messageGroupId := Some group_id\<rparr>) = standard_arn"
    "messageGroupId (standard_config\<lparr>messageGroupId := Some group_id\<rparr>) = Some group_id"
    by (simp_all add: standard_config_def)
  from validateFifoTopic_spec [where arn = fifo_arn and gid = None] f
  have 1: "validateFifoTopic fifo_arn None = Inl fifoRequired" by blast
  from validateFifoTopic_spec [where arn = standard_arn and gid = "Some group_id"
      and c = "standard_config\<lparr>messageGroupId := Some group_id\<rparr>" and w = "[fifoWarning]"
      and rt = sample_runtime and attrs = None and send = sample_client]
    standard_arn_suffix s validated_group a t
  have 2: "validateFifoTopic standard_arn (Some group_id) = Inr [fifoWarning]"
    and 3: "map MessageGroupId
     (sent (snd (publishMessage sample_runtime sample_client
                   (standard_config\<lparr>messageGroupId := Some group_id\<rparr>)))) = [Some group_id]"
    by simp_all
  from 1 2 3 standard_arn_suffix s validated_group show ?thesis by simp
qed

text \<open>
  The claim as stated has the failure exactly when no group id is supplied. A FIFO topic
  with the empty string for a group id fails as well.
\<close>

theorem validateFifoTopic_counterexample:
  "suffix (js ''.fifo'') fifo_arn \<and> (Some [] :: jsstring option) \<noteq> None \<and>
   validateFifoTopic fifo_arn (Some []) = Inl fifoRequired"
  by (simp add: validateFifoTopic_def fifo_arn_suffix truthy_def)

text \<open>
  C10, amended: for a topic ARN that ends with \<open>.fifo\<close>, \<open>validateFifoTopic\<close> fails with the
  group-id-required error for the empty group id as for an absent one, and
  \<open>publishMessage\<close> runs the same with the one as with the other: it returns a failure
  result and sends nothing. The error is the one of the ARN format when the ARN fails its
  validator, else the one of the size when the message fails its validator, else the one
  of the structure mode when that fails its validator, and the group-id-required error
  when the three pass.
\<close>

theorem fifo_empty_group_id:
  "suffix (js ''.fifo'') (topicArn c) \<longrightarrow>
     validateFifoTopic (topicArn c) (Some []) = Inl fifoRequired \<and>
     validateFifoTopic (topicArn c) None = Inl fifoRequired \<and>
     publishMessage rt send (c\<lparr>messageGroupId := Some []\<rparr>) =
       publishMessage rt send (c\<lparr>messageGroupId := None\<rparr>) \<and>
     (\<exists>e'. fst (publishMessage rt send (c\<lparr>messageGroupId := Some []\<rparr>)) = failure e') \<and>
     sent (snd (publishMessage rt send (c\<lparr>messageGroupId := Some []\<rparr>))) = [] \<and>
     (validateTopicArn (topicArn c) = Inl e \<longrightarrow>
        publishMessage rt send (c\<lparr>messageGroupId := Some []\<rparr>) =
          (failure e, [failedLine e])) \<and>
     (validateTopicArn (topicArn c) = Inr () \<and> validateMessage (message c) = Inl e \<longrightarrow>
        publishMessage rt send (c\<lparr>messageGroupId := Some []\<rparr>) =
          (failure e, [failedLine e])) \<and>
     (validateTopicArn (topicArn c) = Inr () \<and> validateMessage (message c) = Inr () \<and>
      validateMessageStructure (messageStructure c) = Inl e \<longrightarrow>
        publishMessage rt send (c\<lparr>messageGroupId := Some []\<rparr>) =
          (failure e, [failedLine e])) \<and>
     (validateTopicArn (topicArn c) = Inr () \<and> validateMessage (message c) = Inr () \<and>
      validateMessageStructure (messageStructure c) = Inr () \<longrightarrow>
        publishMessage rt send (c\<lparr>messageGroupId := Some []\<rparr>) =
          (failure fifoRequired, [failedLine fifoRequired]))"
proof
  assume fifo: "suffix (js ''.fifo'') (topicArn c)"
  have t: "\<not> truthy (Some [])" "\<not> truthy None"
    by (simp_all add: truthy_def)
  have f: "validateFifoTopic (topicArn c) (Some []) = Inl fifoRequired"
    "validateFifoTopic (topicArn c) None = Inl fifoRequired"
    using fifo t by (simp_all add: validateFifoTopic_def)
  note p = publishMessage_no_group [OF fifo t(1), of rt send]
    publishMessage_no_group [OF fifo t(2), of rt send]
  have eq: "publishMessage rt send (c\<lparr>messageGroupId := Some []\<rparr>) =
       publishMessage rt send (c\<lparr>messageGroupId := None\<rparr>)"
    by (simp only: p)
  have fails: "\<exists>e'. fst (publishMessage rt send (c\<lparr>messageGroupId := Some []\<rparr>)) = failure e'"
    by (auto simp: p(1) split: sum.splits)
  have none: "sent (snd (publishMessage rt send (c\<lparr>messageGroupId := Some []\<rparr>))) = []"
    by (simp add: p(1) sent_failedLine split: sum.splits)
  have arn: "publishMessage rt send (c\<lparr>messageGroupId := Some []\<rparr>) =
          (failure e, [failedLine e])"
    if "validateTopicArn (topicArn c) = Inl e"
    using that by (simp add: p(1))
  have size: "publishMessage rt send (c\<lparr>messageGroupId := Some []\<rparr>) =
          (failure e, [failedLine e])"
    if "validateTopicArn (topicArn c) = Inr () \<and> validateMessage (message c) = Inl e"
    using that by (simp add: p(1))
  have struct: "publishMessage rt send (c\<lparr>messageGroupId := Some []\<rparr>) =
          (failure e, [failedLine e])"
    if "validateTopicArn (topicArn c) = Inr () \<and> validateMessage (message c) = Inr () \<and>
      validateMessageStructure (messageStructure c) = Inl e"
    using that by (simp add: p(1))
  have req: "publishMessage rt send (c\<lparr>messageGroupId := Some []\<rparr>) =
          (failure fifoRequired, [failedLine fifoRequired])"
    if "validateTopicArn (topicArn c) = Inr () \<and> validateMessage (message c) = Inr () \<and>
      validateMessageStructure (messageStructure c) = Inr ()"
    using that by (simp add: p(1))
  from f eq fails none arn size struct req
  show "validateFifoTopic (topicArn c) (Some []) = Inl fifoRequired \<and>
     validateFifoTopic (topicArn c) None = Inl fifoRequired \<and>
     publishMessage rt send (c\<lparr>messageGroupId := Some []\<rparr>) =
       publishMessage rt send (c\<lparr>messageGroupId := None\<rparr>) \<and>
     (\<exists>e'. fst (publishMessage rt send (c\<lparr>messageGroupId := Some []\<rparr>)) = failure e') \<and>
     sent (snd (publishMessage rt send (c\<lparr>messageGroupId := Some []\<rparr>))) = [] \<and>
     (validateTopicArn (topicArn c) = Inl e \<longrightarrow>
        publishMessage rt send (c\<lparr>messageGroupId := Some []\<rparr>) =
          (failure e, [failedLine e])) \<and>
     (validateTopicArn (topicArn c) = Inr () \<and> validateMessage (message c) = Inl e \<longrightarrow>
        publishMessage rt send (c\<lparr>messageGroupId := Some []\<rparr>) =
          (failure e, [failedLine e])) \<and>
     (validateTopicArn (topicArn c) = Inr () \<and> validateMessage (message c) = Inr () \<and>
      validateMessageStructure (messageStructure c) = Inl e \<longrightarrow>
        publishMessage rt send (c\<lparr>messageGroupId := Some []\<rparr>) =
          (failure e, [failedLine e])) \<and>
     (validateTopicArn (topicArn c) = Inr () \<and> validateMessage (message c) = Inr () \<and>
      validateMessageStructure (messageStructure c) = Inr () \<longrightarrow>
        publishMessage rt send (c\<lparr>messageGroupId := Some []\<rparr>) =
          (failure fifoRequired, [failedLine fifoRequired]))"
    by blast
qed

theorem fifo_empty_group_id_witness:
  "suffix (js ''.fifo'') fifo_arn \<and>
   publishMessage sample_runtime sample_client
     (standard_config\<lparr>topicArn := fifo_arn, messageGroupId := Some []\<rparr>) =
     (failure fifoRequired, [failedLine fifoRequired]) \<and>
   publishMessage sample_runtime sample_client
     (standard_config\<lparr>topicArn := fifo_arn, messageGroupId := None\<rparr>) =
     (failure fifoRequired, [failedLine fifoRequired]) \<and>
   suffix (js ''.fifo'') bad_fifo_arn \<and>
   fst (publishMessage sample_runtime sample_client
          (standard_config\<lparr>topicArn := bad_fifo_arn, messageGroupId := Some []\<rparr>)) =
     failure (js ''Invalid topic ARN format: '' @ dquote @ bad_fifo_arn @ dquote @ js ''. '' @
      js ''Expected format: arn:aws:sns:{region}:{account-id}:{topic-name}'') \<and>
   fst (publishMessage sample_runtime sample_client
          (standard_config\<lparr>topicArn := fifo_arn, message := wide_message,
             messageGroupId := Some []\<rparr>)) =
     failure (js ''Message size (262146 bytes) exceeds maximum allowed size (262144 bytes / 256 KB)'') \<and>
   fst (publishMessage sample_runtime sample_client
          ((standard_config\<lparr>topicArn := fifo_arn, messageStructure := Some (js ''xml'')\<rparr>)
             \<lparr>messageGroupId := Some []\<rparr>)) =
     failure (js ''Invalid message-structure: '' @ dquote @ js ''xml'' @ dquote @
              js ''. Must be '' @ dquote @ js ''json'' @ dquote @ js '' or left empty.'')"
proof -
  have 1: "publishMessage sample_runtime sample_client
     (standard_config\<lparr>topicArn := fifo_arn, messageGroupId := Some []\<rparr>) =
     (failure fifoRequired, [failedLine fifoRequired]) \<and>
   publishMessage sample_runtime sample_client
     (standard_config\<lparr>topicArn := fifo_arn, messageGroupId := None\<rparr>) =
     (failure fifoRequired, [failedLine fifoRequired])"
  proof -
    have "validateTopicArn (topicArn (standard_config\<lparr>topicArn := fifo_arn\<rparr>)) = Inr () \<and>
      validateMessage (message (standard_config\<lparr>topicArn := fifo_arn\<rparr>)) = Inr () \<and>
      validateMessageStructure (messageStructure (standard_config\<lparr>topicArn := fifo_arn\<rparr>)) = Inr ()"
      and "suffix (js ''.fifo'') (topicArn (standard_config\<lparr>topicArn := fifo_arn\<rparr>))"
      by (simp_all add: fifo_arn_suffix standard_fields fifo_arn_ok hello_ok standard_structure)
    with fifo_empty_group_id [where c = "standard_config\<lparr>topicArn := fifo_arn\<rparr>"
        and rt = sample_runtime and send = sample_client]
    show ?thesis by metis
  qed
  have b: "suffix (js ''.fifo'') bad_fifo_arn"
    by (simp add: bad_fifo_arn_def js_def suffix_def)
  have 2: "fst (publishMessage sample_runtime sample_client
          (standard_config\<lparr>topicArn := bad_fifo_arn, messageGroupId := Some []\<rparr>)) =
     failure (js ''Invalid topic ARN format: '' @ dquote @ bad_fifo_arn @ dquote @ js ''. '' @
      js ''Expected format: arn:aws:sns:{region}:{account-id}:{topic-name}'')"
  proof -
    have "suffix (js ''.fifo'') (topicArn (standard_config\<lparr>topicArn := bad_fifo_arn\<rparr>))"
      and "validateTopicArn (topicArn (standard_config\<lparr>topicArn := bad_fifo_arn\<rparr>)) =
        Inl (js ''Invalid topic ARN format: '' @ dquote @ bad_fifo_arn @ dquote @ js ''. '' @
      js ''Expected format: arn:aws:sns:{region}:{account-id}:{topic-name}'')"
      by (simp_all add: b standard_fields bad_fifo_arn_fails)
    with fifo_empty_group_id [where c = "standard_config\<lparr>topicArn := bad_fifo_arn\<rparr>"
        and rt = sample_runtime and send = sample_client
        and e = "js ''Invalid topic ARN format: '' @ dquote @ bad_fifo_arn @ dquote @ js ''. '' @
      js ''Expected format: arn:aws:sns:{region}:{account-id}:{topic-name}''"]
    have "publishMessage sample_runtime sample_client
          (standard_config\<lparr>topicArn := bad_fifo_arn, messageGroupId := Some []\<rparr>) =
        (failure (js ''Invalid topic ARN format: '' @ dquote @ bad_fifo_arn @ dquote @ js ''. '' @
      js ''Expected format: arn:aws:sns:{region}:{account-id}:{topic-name}''),
         [failedLine (js ''Invalid topic ARN format: '' @ dquote @ bad_fifo_arn @ dquote @ js ''. '' @
      js ''Expected format: arn:aws:sns:{region}:{account-id}:{topic-name}'')])"
      by blast
    then show ?thesis by simp
  qed
  have 3: "fst (publishMessage sample_runtime sample_client
          (standard_config\<lparr>topicArn := fifo_arn, message := wide_message,
             messageGroupId := Some []\<rparr>)) =
     failure (js ''Message size (262146 bytes) exceeds maximum allowed size (262144 bytes / 256 KB)'')"
  proof -
    have "suffix (js ''.fifo'')
        (topicArn (standard_config\<lparr>topicArn := fifo_arn, message := wide_message\<rparr>))"
      and "validateTopicArn
          (topicArn (standard_config\<lparr>topicArn := fifo_arn, message := wide_message\<rparr>)) = Inr () \<and>
        validateMessage
          (message (standard_config\<lparr>topicArn := fifo_arn, message := wide_message\<rparr>)) =
        Inl (js ''Message size (262146 bytes) exceeds maximum allowed size (262144 bytes / 256 KB)'')"
      by (simp_all add: fifo_arn_suffix standard_fields fifo_arn_ok wide_message_fails)
    with fifo_empty_group_id [where c = "standard_config\<lparr>topicArn := fifo_arn, message := wide_message\<rparr>"
        and rt = sample_runtime and send = sample_client
        and e = "js ''Message size (262146 bytes) exceeds maximum allowed size (262144 bytes / 256 KB)''"]
    have "publishMessage sample_runtime sample_client
          (standard_config\<lparr>topicArn := fifo_arn, message := wide_message,
             messageGroupId := Some []\<rparr>) =
        (failure (js ''Message size (262146 bytes) exceeds maximum allowed size (262144 bytes / 256 KB)''),
         [failedLine (js ''Message size (262146 bytes) exceeds maximum allowed size (262144 bytes / 256 KB)'')])"
      by blast
    then show ?thesis by simp
  qed
  have 4: "fst (publishMessage sample_runtime sample_client
          ((standard_config\<lparr>topicArn := fifo_arn, messageStructure := Some (js ''xml'')\<rparr>)
             \<lparr>messageGroupId := Some []\<rparr>)) =
     failure (js ''Invalid message-structure: '' @ dquote @ js ''xml'' @ dquote @
              js ''. Must be '' @ dquote @ js ''json'' @ dquote @ js '' or left empty.'')"
  proof -
    have "suffix (js ''.fifo'')
        (topicArn (standard_config\<lparr>topicArn := fifo_arn, messageStructure := Some (js ''xml'')\<rparr>))"
      and "validateTopicArn
          (topicArn (standard_config\<lparr>topicArn := fifo_arn, messageStructure := Some (js ''xml'')\<rparr>)) = Inr () \<and>
        validateMessage
          (message (standard_config\<lparr>topicArn := fifo_arn, messageStructure := Some (js ''xml'')\<rparr>)) = Inr () \<and>
        validateMessageStructure
          (messageStructure (standard_config\<lparr>topicArn := fifo_arn, messageStructure := Some (js ''xml'')\<rparr>)) =
        Inl (js ''Invalid message-structure: '' @ dquote @ js ''xml'' @ dquote @
              js ''. Must be '' @ dquote @ js ''json'' @ dquote @ js '' or left empty.'')"
      by (simp_all add: fifo_arn_suffix standard_fields fifo_arn_ok hello_ok xml_fails)
    with fifo_empty_group_id [where c = "standard_config\<lparr>topicArn := fifo_arn, messageStructure := Some (js ''xml'')\<rparr>"
        and rt = sample_runtime and send = sample_client
        and e = "js ''Invalid message-structure: '' @ dquote @ js ''xml'' @ dquote @
              js ''. Must be '' @ dquote @ js ''json'' @ dquote @ js '' or left empty.''"]
    have "publishMessage sample_runtime sample_client
          ((standard_config\<lparr>topicArn := fifo_arn, messageStructure := Some (js ''xml'')\<rparr>)
             \<lparr>messageGroupId := Some []\<rparr>) =
        (failure (js ''Invalid message-structure: '' @ dquote @ js ''xml'' @ dquote @
              js ''. Must be '' @ dquote @ js ''json'' @ dquote @ js '' or left empty.''),
         [failedLine (js ''Invalid message-structure: '' @ dquote @ js ''xml'' @ dquote @
              js ''. Must be '' @ dquote @ js ''json'' @ dquote @ js '' or left empty.'')])"
      by blast
    then show ?thesis by simp
  qed
  from 1 b 2 3 4 fifo_arn_suffix show ?thesis by simp
qed

text \<open>
  The claim as stated has \<open>publishMessage\<close> fail with the group-id-required error for
  every ARN that ends with \<open>.fifo\<close>. An ARN that ends with \<open>.fifo\<close> and lacks the prefix
  fails at the first validator: the result is the failure with the error of the ARN
  format, which is another result than the failure with the group-id-required error.
\<close>

theorem fifo_empty_group_id_counterexample:
  "suffix (js ''.fifo'') bad_fifo_arn \<and>
   fst (publishMessage sample_runtime sample_client
          (standard_config\<lparr>topicArn := bad_fifo_arn, messageGroupId := Some []\<rparr>)) =
     failure (js ''Invalid topic ARN format: '' @ dquote @ bad_fifo_arn @ dquote @ js ''. '' @
      js ''Expected format: arn:aws:sns:{region}:{account-id}:{topic-name}'') \<and>
   failure (js ''Invalid topic ARN format: '' @ dquote @ bad_fifo_arn @ dquote @ js ''. '' @
      js ''Expected format: arn:aws:sns:{region}:{account-id}:{topic-name}'') \<noteq>
     failure fifoRequired"
proof -
  have "suffix (js ''.fifo'') bad_fifo_arn"
    by (simp add: bad_fifo_arn_def js_def suffix_def)
  moreover have "failure (js ''Invalid topic ARN format: '' @ dquote @ bad_fifo_arn @ dquote @ js ''. '' @
      js ''Expected format: arn:aws:sns:{region}:{account-id}:{topic-name}'') \<noteq>
     failure fifoRequired"
    by (simp add: failure_def failed_def fifoRequired_def js_def)
  moreover have "fst (publishMessage sample_runtime sample_client
          (standard_config\<lparr>topicArn := bad_fifo_arn, messageGroupId := Some []\<rparr>)) =
     failure (js ''Invalid topic ARN format: '' @ dquote @ bad_fifo_arn @ dquote @ js ''. '' @
      js ''Expected format: arn:aws:sns:{region}:{account-id}:{topic-name}'')"
    using publishMessage_arn [where c = "standard_config\<lparr>topicArn := bad_fifo_arn, messageGroupId := Some []\<rparr>"
        and rt = sample_runtime and send = sample_client, OF _]
      bad_fifo_arn_fails
    by (simp add: standard_config_def)
  ultimately show ?thesis by simp
qed

section \<open>The order of the validations\<close>

text \<open>
  C1: when a validator fails, \<open>publishMessage\<close> returns the failure result with the message
  of that validator and logs that one line, whatever the later validators would say: the
  ARN first, then the size, then the structure mode, then the FIFO precondition. When the
  four pass and the parse fails that \<open>publishMessage\<close> runs on a non-empty attribute text,
  the result is the failure with the parser's message. In all five cases nothing is sent.
\<close>

theorem publishMessage_short_circuit:
  "(validateTopicArn (topicArn c) = Inl e \<longrightarrow>
      publishMessage rt send c = (failure e, [failedLine e])) \<and>
   (validateTopicArn (topicArn c) = Inr () \<and> validateMessage (message c) = Inl e \<longrightarrow>
      publishMessage rt send c = (failure e, [failedLine e])) \<and>
   (validateTopicArn (topicArn c) = Inr () \<and> validateMessage (message c) = Inr () \<and>
    validateMessageStructure (messageStructure c) = Inl e \<longrightarrow>
      publishMessage rt send c = (failure e, [failedLine e])) \<and>
   (validateTopicArn (topicArn c) = Inr () \<and> validateMessage (message c) = Inr () \<and>
    validateMessageStructure (messageStructure c) = Inr () \<and>
    validateFifoTopic (topicArn c) (messageGroupId c) = Inl e \<longrightarrow>
      publishMessage rt send c = (failure e, [failedLine e])) \<and>
   (validateTopicArn (topicArn c) = Inr () \<and> validateMessage (message c) = Inr () \<and>
    validateMessageStructure (messageStructure c) = Inr () \<and>
    validateFifoTopic (topicArn c) (messageGroupId c) = Inr w \<and>
    messageAttributes c = Some a \<and> a \<noteq> [] \<and> parseMessageAttributes rt a = Inl e \<longrightarrow>
      fst (publishMessage rt send c) = failure e \<and>
      sent (snd (publishMessage rt send c)) = [])"
proof (intro conjI impI)
  assume "validateTopicArn (topicArn c) = Inl e"
  then show "publishMessage rt send c = (failure e, [failedLine e])"
    by (rule publishMessage_arn)
next
  assume "validateTopicArn (topicArn c) = Inr () \<and> validateMessage (message c) = Inl e"
  then show "publishMessage rt send c = (failure e, [failedLine e])"
    by (simp add: publishMessage_size)
next
  assume "validateTopicArn (topicArn c) = Inr () \<and> validateMessage (message c) = Inr () \<and>
    validateMessageStructure (messageStructure c) = Inl e"
  then show "publishMessage rt send c = (failure e, [failedLine e])"
    by (simp add: publishMessage_structure)
next
  assume "validateTopicArn (topicArn c) = Inr () \<and> validateMessage (message c) = Inr () \<and>
    validateMessageStructure (messageStructure c) = Inr () \<and>
    validateFifoTopic (topicArn c) (messageGroupId c) = Inl e"
  then show "publishMessage rt send c = (failure e, [failedLine e])"
    by (simp add: publishMessage_fifo)
next
  assume a: "validateTopicArn (topicArn c) = Inr () \<and> validateMessage (message c) = Inr () \<and>
    validateMessageStructure (messageStructure c) = Inr () \<and>
    validateFifoTopic (topicArn c) (messageGroupId c) = Inr w \<and>
    messageAttributes c = Some a \<and> a \<noteq> [] \<and> parseMessageAttributes rt a = Inl e"
  then have v: "validated c w" and s: "suppliedAttributes rt c = Inl e"
    by (simp_all add: validated_def suppliedAttributes_def)
  from publishMessage_parse [where send = send, OF v s]
  show "fst (publishMessage rt send c) = failure e"
    and "sent (snd (publishMessage rt send c)) = []"
    by simp_all
qed

lemmas text_defs = broken_text_def attribute_text_def both_text_def null_text_def
  binary_text_def number_text_def eleven_text_def

lemma sample_parse_texts:
  "JSON_parse sample_runtime (js ''[]'') = Inr (JArr [])"
  "JSON_parse sample_runtime attribute_text = Inr attribute_value"
  "JSON_parse sample_runtime both_text = Inr both_value"
  "JSON_parse sample_runtime null_text = Inr null_value"
  "JSON_parse sample_runtime binary_text = Inr binary_value"
  "JSON_parse sample_runtime number_text = Inr number_value"
  "JSON_parse sample_runtime eleven_text = Inr eleven_value"
  "JSON_parse sample_runtime broken_text = Inl (js ''Unexpected end of JSON input'')"
  by (simp_all add: sample_runtime_def sample_parse_def sample_texts_def text_defs js_def)


lemma broken_fails:
  "broken_text \<noteq> [] \<and>
   parseMessageAttributes sample_runtime broken_text =
     Inl (js ''Failed to parse message attributes: Unexpected end of JSON input'')"
  by (simp add: parseMessageAttributes_def parseMessageAttributes_try_def sample_runtime_def
      sample_parse_def sample_texts_def text_defs js_def)

theorem publishMessage_short_circuit_witness:
  "publishMessage sample_runtime sample_client (standard_config\<lparr>topicArn := bad_arn\<rparr>) =
     (failure (js ''Invalid topic ARN format: '' @ dquote @ bad_arn @ dquote @ js ''. '' @
               js ''Expected format: arn:aws:sns:{region}:{account-id}:{topic-name}''),
      [failedLine (js ''Invalid topic ARN format: '' @ dquote @ bad_arn @ dquote @ js ''. '' @
               js ''Expected format: arn:aws:sns:{region}:{account-id}:{topic-name}'')]) \<and>
   fst (publishMessage sample_runtime sample_client
          (standard_config\<lparr>topicArn := bad_arn, message := wide_message\<rparr>)) =
     failure (js ''Invalid topic ARN format: '' @ dquote @ bad_arn @ dquote @ js ''. '' @
              js ''Expected format: arn:aws:sns:{region}:{account-id}:{topic-name}'') \<and>
   fst (publishMessage sample_runtime sample_client
          (standard_config\<lparr>message := wide_message, messageStructure := Some (js ''xml'')\<rparr>)) =
     failure (js ''Message size (262146 bytes) exceeds maximum allowed size (262144 bytes / 256 KB)'') \<and>
   fst (publishMessage sample_runtime sample_client
          (standard_config\<lparr>topicArn := fifo_arn, messageStructure := Some (js ''xml'')\<rparr>)) =
     failure (js ''Invalid message-structure: '' @ dquote @ js ''xml'' @ dquote @
          js ''. Must be '' @ dquote @ js ''json'' @ dquote @ js '' or left empty.'') \<and>
   publishMessage sample_runtime sample_client
          (standard_config\<lparr>topicArn := fifo_arn, messageAttributes := Some broken_text\<rparr>) =
     (failure fifoRequired, [failedLine fifoRequired]) \<and>
   fst (publishMessage sample_runtime sample_client
          (standard_config\<lparr>messageAttributes := Some broken_text\<rparr>)) =
     failure (js ''Failed to parse message attributes: Unexpected end of JSON input'') \<and>
   sent (snd (publishMessage sample_runtime sample_client
          (standard_config\<lparr>messageAttributes := Some broken_text\<rparr>))) = []"
proof -
  note facts = standard_fields bad_arn_fails wide_message_fails xml_fails fifo_fails broken_fails
    standard_arn_ok fifo_arn_ok hello_ok standard_structure standard_fifo
  have 1: "publishMessage sample_runtime sample_client (standard_config\<lparr>topicArn := bad_arn\<rparr>) =
     (failure (js ''Invalid topic ARN format: '' @ dquote @ bad_arn @ dquote @ js ''. '' @
               js ''Expected format: arn:aws:sns:{region}:{account-id}:{topic-name}''),
      [failedLine (js ''Invalid topic ARN format: '' @ dquote @ bad_arn @ dquote @ js ''. '' @
               js ''Expected format: arn:aws:sns:{region}:{account-id}:{topic-name}'')])"
    using publishMessage_short_circuit [where c = "standard_config\<lparr>topicArn := bad_arn\<rparr>"
        and rt = sample_runtime and send = sample_client
        and e = "js ''Invalid topic ARN format: '' @ dquote @ bad_arn @ dquote @ js ''. '' @
               js ''Expected format: arn:aws:sns:{region}:{account-id}:{topic-name}''"]
    by (simp add: facts)
  have 2: "fst (publishMessage sample_runtime sample_client
          (standard_config\<lparr>topicArn := bad_arn, message := wide_message\<rparr>)) =
     failure (js ''Invalid topic ARN format: '' @ dquote @ bad_arn @ dquote @ js ''. '' @
              js ''Expected format: arn:aws:sns:{region}:{account-id}:{topic-name}'')"
    using publishMessage_short_circuit [where c = "standard_config\<lparr>topicArn := bad_arn, message := wide_message\<rparr>"
        and rt = sample_runtime and send = sample_client
        and e = "js ''Invalid topic ARN format: '' @ dquote @ bad_arn @ dquote @ js ''. '' @
               js ''Expected format: arn:aws:sns:{region}:{account-id}:{topic-name}''"]
    by (simp add: facts)
  have 3: "fst (publishMessage sample_runtime sample_client
          (standard_config\<lparr>message := wide_message, messageStructure := Some (js ''xml'')\<rparr>)) =
     failure (js ''Message size (262146 bytes) exceeds maximum allowed size (262144 bytes / 256 KB)'')"
    using publishMessage_short_circuit [where c = "standard_config\<lparr>message := wide_message, messageStructure := Some (js ''xml'')\<rparr>"
        and rt = sample_runtime and send = sample_client
        and e = "js ''Message size (262146 bytes) exceeds maximum allowed size (262144 bytes / 256 KB)''"]
    by (simp add: facts)
  have 4: "fst (publishMessage sample_runtime sample_client
          (standard_config\<lparr>topicArn := fifo_arn, messageStructure := Some (js ''xml'')\<rparr>)) =
     failure (js ''Invalid message-structure: '' @ dquote @ js ''xml'' @ dquote @
          js ''. Must be '' @ dquote @ js ''json'' @ dquote @ js '' or left empty.'')"
    using publishMessage_short_circuit [where c = "standard_config\<lparr>topicArn := fifo_arn, messageStructure := Some (js ''xml'')\<rparr>"
        and rt = sample_runtime and send = sample_client
        and e = "js ''Invalid message-structure: '' @ dquote @ js ''xml'' @ dquote @
          js ''. Must be '' @ dquote @ js ''json'' @ dquote @ js '' or left empty.''"]
    by (simp add: facts)
  have 5: "publishMessage sample_runtime sample_client
          (standard_config\<lparr>topicArn := fifo_arn, messageAttributes := Some broken_text\<rparr>) =
     (failure fifoRequired, [failedLine fifoRequired])"
    using publishMessage_short_circuit [where c = "standard_config\<lparr>topicArn := fifo_arn, messageAttributes := Some broken_text\<rparr>"
        and rt = sample_runtime and send = sample_client and e = fifoRequired]
    by (simp add: facts)
  have 6: "fst (publishMessage sample_runtime sample_client
          (standard_config\<lparr>messageAttributes := Some broken_text\<rparr>)) =
     failure (js ''Failed to parse message attributes: Unexpected end of JSON input'') \<and>
   sent (snd (publishMessage sample_runtime sample_client
          (standard_config\<lparr>messageAttributes := Some broken_text\<rparr>))) = []"
    using publishMessage_short_circuit [where c = "standard_config\<lparr>messageAttributes := Some broken_text\<rparr>"
        and rt = sample_runtime and send = sample_client and w = "[]" and a = broken_text
        and e = "js ''Failed to parse message attributes: Unexpected end of JSON input''"]
    by (simp add: facts)
  from 1 2 3 4 5 6 show ?thesis by simp
qed

section \<open>The result\<close>






section \<open>The request\<close>

lemma valid_cases:
  "d \<in> set validDataTypes \<longleftrightarrow>
     d = js ''String'' \<or> d = js ''Number'' \<or> d = js ''Binary'' \<or> d = js ''String.Array''"
  by (auto simp: validDataTypes_def)

lemma binary_distinct:
  "js ''String'' \<noteq> js ''Binary''" "js ''Number'' \<noteq> js ''Binary''"
  "js ''String.Array'' \<noteq> js ''Binary''" "js ''Binary'' \<noteq> js ''String''"
  "js ''Binary'' \<noteq> js ''Number''" "js ''Binary'' \<noteq> js ''String.Array''"
  by (simp_all add: js_def)

lemma valid_nonempty: "d \<in> set validDataTypes \<Longrightarrow> d \<noteq> []"
  by (auto simp: valid_cases js_def)

lemma attribute_text_parsed:
  "parseMessageAttributes sample_runtime attribute_text = Inr attribute_parsed"
proof -
  have p: "JSON_parse sample_runtime attribute_text = Inr attribute_value"
    by (simp add: sample_runtime_def sample_parse_def sample_texts_def text_defs js_def)
  have a: "parseAttribute sample_runtime (js ''A'')
             (JObj [(js ''DataType'', JStr (js ''String'')), (js ''StringValue'', JStr (js ''x''))]) =
           Inr \<lparr>DataType = js ''String'', StringValue = Some (js ''x''), BinaryValue = None\<rparr>"
    by (simp add: parseAttribute_def buildAttribute_def validDataTypes_def js_def)
  show ?thesis
    by (simp add: parseMessageAttributes_def parseMessageAttributes_try_def p attribute_value_def
        Object_keys_def a assign_def attribute_parsed_def)
       (simp add: js_def)
qed

lemma attribute_text_nonempty: "attribute_text \<noteq> []"
  by (simp add: attribute_text_def js_def)

lemma validated_full: "validated full_config []"
  by (simp add: validated_def full_fields fifo_arn_ok hello_ok validateMessageStructure_def
      validateFifoTopic_def fifo_arn_suffix truthy_def group_id_nonempty)

lemma supplied_full: "suppliedAttributes sample_runtime full_config = Inr (Some attribute_parsed)"
  by (simp add: suppliedAttributes_def full_fields attribute_text_nonempty attribute_text_parsed)

text \<open>
  C7: for a configuration that passes the four validators and the attribute parser, the
  one request sent is the request of the specification: the topic ARN, the message, the
  subject, the structure mode, the group id and the deduplication id each exactly when a
  non-empty value was supplied, the parsed attributes exactly when a non-empty attribute
  text was supplied, and nothing in the other fields.
\<close>

theorem publishMessage_request_spec:
  "(validated c w \<and> suppliedAttributes rt c = Inr attrs \<longrightarrow>
      sent (snd (publishMessage rt send c)) = [spec_request c attrs]) \<and>
   (suppliedAttributes rt c = Inr attrs \<longrightarrow>
      (attrs = None \<longleftrightarrow> spec_optional (messageAttributes c) = None) \<and>
      (\<forall>x. attrs = Some x \<longrightarrow>
         (\<exists>a. messageAttributes c = Some a \<and> parseMessageAttributes rt a = Inr x)))"
proof (intro conjI impI)
  assume a: "validated c w \<and> suppliedAttributes rt c = Inr attrs"
  show "sent (snd (publishMessage rt send c)) = [spec_request c attrs]"
  proof (cases "send (spec_request c attrs)")
    case (Inl thrown)
    with a publishMessage_rejected(2) [where send = send] show ?thesis by blast
  next
    case (Inr response)
    with a publishMessage_resolved(2) [where send = send] show ?thesis by blast
  qed
next
  assume "suppliedAttributes rt c = Inr attrs"
  then show "attrs = None \<longleftrightarrow> spec_optional (messageAttributes c) = None"
    by (auto simp: suppliedAttributes_def spec_optional_def split: option.splits if_splits sum.splits)
next
  assume "suppliedAttributes rt c = Inr attrs"
  then show "\<forall>x. attrs = Some x \<longrightarrow>
         (\<exists>a. messageAttributes c = Some a \<and> parseMessageAttributes rt a = Inr x)"
    by (auto simp: suppliedAttributes_def split: option.splits if_splits sum.splits)
qed

theorem publishMessage_request_spec_witness:
  "validated full_config [] \<and>
   suppliedAttributes sample_runtime full_config = Inr (Some attribute_parsed) \<and>
   sent (snd (publishMessage sample_runtime sample_client full_config)) =
     [\<lparr>TopicArn = fifo_arn, TargetArn = None, PhoneNumber = None, Message = js ''Hello'',
       Subject = Some subject_text, MessageStructure = Some (js ''json''),
       MessageAttributes = Some attribute_parsed, MessageDeduplicationId = None,
       MessageGroupId = Some group_id\<rparr>]"
  using publishMessage_request_spec [where c = full_config and w = "[]" and rt = sample_runtime
      and attrs = "Some attribute_parsed" and send = sample_client]
  by (simp add: validated_full supplied_full spec_request_def full_fields spec_optional_def
      subject_text_nonempty json_nonempty group_id_nonempty)

section \<open>The attributes\<close>

text \<open>One entry: when the parser accepts it, and what it answers when it does not.\<close>

lemma buildAttribute_Inr:
  "buildAttribute rt (Some (JStr d)) sv bv = Inr a \<longleftrightarrow>
     (case sv of None \<Rightarrow> True | Some x \<Rightarrow> \<not> isl (ToString x)) \<and>
     (case bv of None \<Rightarrow> True | Some x \<Rightarrow> \<not> isl (Buffer_from_base64 rt x)) \<and>
     a = \<lparr>DataType = d, StringValue = map_option (\<lambda>x. projr (ToString x)) sv,
          BinaryValue = map_option (\<lambda>x. projr (Buffer_from_base64 rt x)) bv\<rparr>"
  by (auto simp: buildAttribute_def split: option.splits sum.splits)

lemma parseAttribute_valid:
  assumes "property v (js ''DataType'') = Some (JStr d)" and "d \<in> set validDataTypes"
  shows "parseAttribute rt key v =
     (if d = js ''Binary''
      then (if property v (js ''BinaryValue'') = None
            then Inl (js ''Missing BinaryValue for attribute '' @ dquote @ key @ dquote @
                      js '' with DataType '' @ dquote @ js ''Binary'' @ dquote)
            else buildAttribute rt (Some (JStr d)) (property v (js ''StringValue''))
                   (property v (js ''BinaryValue'')))
      else (if property v (js ''StringValue'') = None
            then Inl (js ''Missing StringValue for attribute '' @ dquote @ key @ dquote @
                      js '' with DataType '' @ dquote @ d @ dquote)
            else buildAttribute rt (Some (JStr d)) (property v (js ''StringValue''))
                   (property v (js ''BinaryValue''))))"
proof -
  from assms(1) have "v \<noteq> JNull" by auto
  moreover from assms(2) have "d \<noteq> []" by (rule valid_nonempty)
  ultimately show ?thesis
    using assms valid_cases [of d]
    by (auto simp: parseAttribute_def Let_def binary_distinct)
qed

lemma parseAttribute_invalid:
  assumes "\<not> (\<exists>d. property v (js ''DataType'') = Some (JStr d) \<and> d \<in> set validDataTypes)"
  shows "isl (parseAttribute rt key v)"
proof (cases "v = JNull")
  case True
  then show ?thesis by (simp add: parseAttribute_def)
next
  case False
  show ?thesis
  proof (cases "falsy (property v (js ''DataType''))")
    case True
    with False show ?thesis by (simp add: parseAttribute_def Let_def)
  next
    case nf: False
    have "\<not> includes_str validDataTypes (property v (js ''DataType''))"
      using assms by (cases "(validDataTypes, property v (js ''DataType''))" rule: includes_str.cases) auto
    with False nf show ?thesis
      by (simp add: parseAttribute_def Let_def split: sum.splits)
  qed
qed

lemma parseAttribute_Inr:
  "parseAttribute rt key v = Inr a \<longleftrightarrow> accepted_entry rt v \<and> a = entry_attribute rt v"
proof (cases "\<exists>d. property v (js ''DataType'') = Some (JStr d) \<and> d \<in> set validDataTypes")
  case True
  then obtain d where d: "property v (js ''DataType'') = Some (JStr d)" "d \<in> set validDataTypes"
    by blast
  show ?thesis
    unfolding parseAttribute_valid [OF d] accepted_entry_def entry_attribute_def
    using d by (auto simp: buildAttribute_Inr)
next
  case False
  then have "isl (parseAttribute rt key v)" by (rule parseAttribute_invalid)
  moreover from False have "\<not> accepted_entry rt v"
    by (auto simp: accepted_entry_def split: option.splits json.splits)
  ultimately show ?thesis by auto
qed






text \<open>The loop, and the mapping it builds.\<close>

lemma parseEntries_Inr:
  "parseEntries rt entries attrs = Inr result \<longleftrightarrow>
     list_all (\<lambda>(key, v). accepted_entry rt v) entries \<and> result = collect rt entries attrs"
proof (induction entries arbitrary: attrs)
  case Nil
  then show ?case by auto
next
  case (Cons kv entries)
  obtain key v where kv: "kv = (key, v)" by (cases kv)
  show ?case
  proof (cases "parseAttribute rt key v")
    case (Inl e)
    then have "\<not> accepted_entry rt v"
      using parseAttribute_Inr [of rt key v] by auto
    with Inl kv show ?thesis by simp
  next
    case (Inr a)
    then have "accepted_entry rt v" "a = entry_attribute rt v"
      using parseAttribute_Inr [of rt key v a] by simp_all
    with Inr kv Cons.IH show ?thesis by simp
  qed
qed

lemma parseEntries_accepted:
  "list_all (\<lambda>(key, v). accepted_entry rt v) entries \<Longrightarrow>
   parseEntries rt entries attrs = Inr (collect rt entries attrs)"
  by (simp add: parseEntries_Inr)


lemma map_of_collect:
  "map_of (collect rt entries attrs) k =
     (if k = js ''__proto__'' then map_of attrs k
      else (case map_of (rev entries) k of
              None \<Rightarrow> map_of attrs k
            | Some v \<Rightarrow> Some (entry_attribute rt v)))"
proof (induction entries arbitrary: attrs)
  case Nil
  then show ?case by simp
next
  case (Cons kv entries)
  obtain key v where kv: "kv = (key, v)" by (cases kv)
  show ?case
    unfolding kv collect.simps Cons.IH
    by (auto simp: assign_def update_conv' map_add_def split: option.splits)
qed

lemma distinct_collect:
  "distinct (map fst attrs) \<Longrightarrow> distinct (map fst (collect rt entries attrs))"
proof (induction entries arbitrary: attrs)
  case Nil
  then show ?case by simp
next
  case (Cons kv entries)
  obtain key v where kv: "kv = (key, v)" by (cases kv)
  from Cons.prems have "distinct (map fst (assign attrs key (entry_attribute rt v)))"
    by (simp add: assign_def distinct_update)
  with Cons.IH kv show ?case by simp
qed

lemma collect_member:
  assumes "(key, a) \<in> set (collect rt entries [])"
  shows "\<exists>v. (key, v) \<in> set entries \<and> a = entry_attribute rt v"
proof -
  have "distinct (map fst (collect rt entries []))"
    by (rule distinct_collect) simp
  with assms have "map_of (collect rt entries []) key = Some a"
    by simp
  then obtain v where "map_of (rev entries) key = Some v" "a = entry_attribute rt v"
    by (auto simp: map_of_collect split: if_splits option.splits)
  then show ?thesis
    using map_of_SomeD [of "rev entries" key v] by auto
qed

lemma accepted_entry_attribute:
  assumes "accepted_entry rt v"
  shows "DataType (entry_attribute rt v) \<in> set validDataTypes"
    and "DataType (entry_attribute rt v) \<noteq> js ''Binary'' \<Longrightarrow> StringValue (entry_attribute rt v) \<noteq> None"
    and "DataType (entry_attribute rt v) = js ''Binary'' \<Longrightarrow> BinaryValue (entry_attribute rt v) \<noteq> None"
    and "StringValue (entry_attribute rt v) = None \<longleftrightarrow> property v (js ''StringValue'') = None"
    and "BinaryValue (entry_attribute rt v) = None \<longleftrightarrow> property v (js ''BinaryValue'') = None"
  using assms
  by (auto simp: accepted_entry_def entry_attribute_def split: option.splits json.splits if_splits)

text \<open>The whole function.\<close>

lemma Object_keys_entries:
  "Object_keys parsed = (case Object_entries parsed of Inl e \<Rightarrow> Inl e | Inr kvs \<Rightarrow> Inr (map fst kvs))"
  by (simp add: Object_keys_def)

lemma parseMessageAttributes_Inr:
  "parseMessageAttributes rt attributesJson = Inr result \<longleftrightarrow>
     (\<exists>parsed entries.
        JSON_parse rt attributesJson = Inr parsed \<and> Object_entries parsed = Inr entries \<and>
        length entries \<le> 10 \<and> list_all (\<lambda>(key, v). accepted_entry rt v) entries \<and>
        result = collect rt entries [])"
  by (auto simp: parseMessageAttributes_def parseMessageAttributes_try_def Object_keys_def
      parseEntries_Inr parseEntries_accepted split: sum.splits)


lemma parseMessageAttributes_null:
  "JSON_parse rt attributesJson = Inr JNull \<Longrightarrow> parseMessageAttributes rt attributesJson = Inl (wrapped nullToObject)"
  by (simp add: parseMessageAttributes_def parseMessageAttributes_try_def wrapped_def Object_keys_def)






lemma both_text_parsed: "parseMessageAttributes sample_runtime both_text = Inr both_parsed"
proof -
  have a: "parseAttribute sample_runtime (js ''B'')
             (JObj [(js ''DataType'', JStr (js ''Binary'')),
                    (js ''BinaryValue'', JStr (js ''aGk='')),
                    (js ''StringValue'', JStr (js ''x''))]) =
           Inr \<lparr>DataType = js ''Binary'', StringValue = Some (js ''x''),
                BinaryValue = Some [0x68, 0x69]\<rparr>"
    by (simp add: parseAttribute_def buildAttribute_def validDataTypes_def sample_runtime_def
        sample_decode_def js_def)
  show ?thesis
    by (simp add: parseMessageAttributes_def parseMessageAttributes_try_def sample_parse_texts
        both_value_def Object_keys_def a assign_def both_parsed_def)
       (simp add: js_def)
qed




text \<open>
  C8, amended: every attribute of a mapping that \<open>parseMessageAttributes\<close> returns has a
  data type among the four and carries the payload of its type, a textual value for
  \<open>String\<close>, \<open>Number\<close> and \<open>String.Array\<close> and a binary one for \<open>Binary\<close>; it carries the
  other payload as well exactly when the entry it comes from has that property.
\<close>

theorem parsed_attribute_payload:
  "parseMessageAttributes rt attributesJson = Inr result \<and> (key, a) \<in> set result \<longrightarrow>
     DataType a \<in> set validDataTypes \<and>
     (DataType a \<noteq> js ''Binary'' \<longrightarrow> StringValue a \<noteq> None) \<and>
     (DataType a = js ''Binary'' \<longrightarrow> BinaryValue a \<noteq> None) \<and>
     (\<exists>parsed entries v.
        JSON_parse rt attributesJson = Inr parsed \<and> Object_entries parsed = Inr entries \<and>
        (key, v) \<in> set entries \<and>
        (StringValue a = None \<longleftrightarrow> property v (js ''StringValue'') = None) \<and>
        (BinaryValue a = None \<longleftrightarrow> property v (js ''BinaryValue'') = None))"
proof
  assume a: "parseMessageAttributes rt attributesJson = Inr result \<and> (key, a) \<in> set result"
  then obtain parsed entries where
    p: "JSON_parse rt attributesJson = Inr parsed" "Object_entries parsed = Inr entries"
      "list_all (\<lambda>(key, v). accepted_entry rt v) entries" "result = collect rt entries []"
    using parseMessageAttributes_Inr [of rt attributesJson result] by blast
  with a collect_member [of key a rt entries] obtain v where
    v: "(key, v) \<in> set entries" "a = entry_attribute rt v"
    by blast
  with p(3) have acc: "accepted_entry rt v"
    by (auto simp: list_all_iff)
  from accepted_entry_attribute [OF acc] v(2)
  have t: "DataType a \<in> set validDataTypes \<and>
     (DataType a \<noteq> js ''Binary'' \<longrightarrow> StringValue a \<noteq> None) \<and>
     (DataType a = js ''Binary'' \<longrightarrow> BinaryValue a \<noteq> None)"
    and q: "JSON_parse rt attributesJson = Inr parsed \<and> Object_entries parsed = Inr entries \<and>
        (key, v) \<in> set entries \<and>
        (StringValue a = None \<longleftrightarrow> property v (js ''StringValue'') = None) \<and>
        (BinaryValue a = None \<longleftrightarrow> property v (js ''BinaryValue'') = None)"
    using p(1,2) v(1) by simp_all
  from q have "\<exists>parsed entries v.
        JSON_parse rt attributesJson = Inr parsed \<and> Object_entries parsed = Inr entries \<and>
        (key, v) \<in> set entries \<and>
        (StringValue a = None \<longleftrightarrow> property v (js ''StringValue'') = None) \<and>
        (BinaryValue a = None \<longleftrightarrow> property v (js ''BinaryValue'') = None)"
    by (intro exI)
  with t show "DataType a \<in> set validDataTypes \<and>
     (DataType a \<noteq> js ''Binary'' \<longrightarrow> StringValue a \<noteq> None) \<and>
     (DataType a = js ''Binary'' \<longrightarrow> BinaryValue a \<noteq> None) \<and>
     (\<exists>parsed entries v.
        JSON_parse rt attributesJson = Inr parsed \<and> Object_entries parsed = Inr entries \<and>
        (key, v) \<in> set entries \<and>
        (StringValue a = None \<longleftrightarrow> property v (js ''StringValue'') = None) \<and>
        (BinaryValue a = None \<longleftrightarrow> property v (js ''BinaryValue'') = None))"
    by simp
qed

theorem parsed_attribute_payload_witness:
  "parseMessageAttributes sample_runtime both_text = Inr both_parsed \<and>
   (js ''B'', \<lparr>DataType = js ''Binary'', StringValue = Some (js ''x''),
               BinaryValue = Some [0x68, 0x69]\<rparr>) \<in> set both_parsed \<and>
   js ''Binary'' \<in> set validDataTypes"
  using parsed_attribute_payload [where rt = sample_runtime and attributesJson = both_text
      and result = both_parsed and key = "js ''B''"
      and a = "\<lparr>DataType = js ''Binary'', StringValue = Some (js ''x''),
               BinaryValue = Some [0x68, 0x69]\<rparr>"]
    both_text_parsed
  by (simp add: both_parsed_def)

text \<open>
  The claim as stated gives a \<open>Binary\<close> attribute no textual value. An entry of type
  \<open>Binary\<close> with both properties yields an attribute with both payloads.
\<close>

theorem parsed_attribute_payload_counterexample:
  "parseMessageAttributes sample_runtime both_text =
     Inr [(js ''B'', \<lparr>DataType = js ''Binary'', StringValue = Some (js ''x''),
                     BinaryValue = Some [0x68, 0x69]\<rparr>)]"
  using both_text_parsed by (simp add: both_parsed_def)

end
